theory Spec2Isabelle
  imports Complex_Main
begin

section \<open>JavaScript numbers\<close>

text \<open>
  The vitals scanner (\<^verbatim>\<open>backend/static/js/vitals-scanner.js\<close>) computes with
  JavaScript numbers. They are modelled as the real numbers extended with the three
  non-finite values of the language: \<open>Infinity\<close>, \<open>-Infinity\<close> and \<open>NaN\<close>.
  Arithmetic on finite values is exact (rounding error and overflow of the binary
  representation are not modelled) and zero carries no sign: a division of a non-zero
  number by zero takes the sign of the numerator. Every division by zero and every
  operation on a non-finite value is written out as JavaScript defines it.

  A quotient, a product or a sum of numbers that are not whole is therefore left to
  the operation that computes it: the properties of the estimators name the quotient
  the scanner rounds (\<open>js_round (js_div _ _)\<close>) and the sum it divides
  (\<open>js_sum\<close>, added in the order of the loop), and say what follows from the
  comparisons, from \<open>Math.round\<close>, \<open>Math.floor\<close> and the clamps, and from the
  arithmetic of indices, which is exact. Values are computed on example series only.
\<close>

datatype jsnum = Fin real | PInf | NInf | NaN

fun js_neg :: "jsnum \<Rightarrow> jsnum" where
  "js_neg (Fin a) = Fin (- a)"
| "js_neg PInf = NInf"
| "js_neg NInf = PInf"
| "js_neg NaN = NaN"

fun js_add :: "jsnum \<Rightarrow> jsnum \<Rightarrow> jsnum" where
  "js_add (Fin a) (Fin b) = Fin (a + b)"
| "js_add NaN _ = NaN"
| "js_add _ NaN = NaN"
| "js_add PInf NInf = NaN"
| "js_add NInf PInf = NaN"
| "js_add PInf _ = PInf"
| "js_add _ PInf = PInf"
| "js_add NInf _ = NInf"
| "js_add _ NInf = NInf"

definition js_sub :: "jsnum \<Rightarrow> jsnum \<Rightarrow> jsnum" where
  "js_sub a b = js_add a (js_neg b)"

fun js_mul :: "jsnum \<Rightarrow> jsnum \<Rightarrow> jsnum" where
  "js_mul (Fin a) (Fin b) = Fin (a * b)"
| "js_mul NaN _ = NaN"
| "js_mul _ NaN = NaN"
| "js_mul (Fin a) PInf = (if a = 0 then NaN else if 0 < a then PInf else NInf)"
| "js_mul (Fin a) NInf = (if a = 0 then NaN else if 0 < a then NInf else PInf)"
| "js_mul PInf (Fin b) = (if b = 0 then NaN else if 0 < b then PInf else NInf)"
| "js_mul NInf (Fin b) = (if b = 0 then NaN else if 0 < b then NInf else PInf)"
| "js_mul PInf PInf = PInf"
| "js_mul PInf NInf = NInf"
| "js_mul NInf PInf = NInf"
| "js_mul NInf NInf = PInf"

fun js_div :: "jsnum \<Rightarrow> jsnum \<Rightarrow> jsnum" where
  "js_div (Fin a) (Fin b) =
     (if b \<noteq> 0 then Fin (a / b)
      else if a = 0 then NaN else if 0 < a then PInf else NInf)"
| "js_div NaN _ = NaN"
| "js_div _ NaN = NaN"
| "js_div (Fin a) PInf = Fin 0"
| "js_div (Fin a) NInf = Fin 0"
| "js_div PInf (Fin b) = (if 0 \<le> b then PInf else NInf)"
| "js_div NInf (Fin b) = (if 0 \<le> b then NInf else PInf)"
| "js_div PInf PInf = NaN"
| "js_div PInf NInf = NaN"
| "js_div NInf PInf = NaN"
| "js_div NInf NInf = NaN"

text \<open>Comparisons: every comparison with \<open>NaN\<close> is false.\<close>

fun js_lt :: "jsnum \<Rightarrow> jsnum \<Rightarrow> bool" where
  "js_lt (Fin a) (Fin b) = (a < b)"
| "js_lt NaN _ = False"
| "js_lt _ NaN = False"
| "js_lt PInf _ = False"
| "js_lt _ NInf = False"
| "js_lt NInf _ = True"
| "js_lt _ PInf = True"

fun js_le :: "jsnum \<Rightarrow> jsnum \<Rightarrow> bool" where
  "js_le (Fin a) (Fin b) = (a \<le> b)"
| "js_le NaN _ = False"
| "js_le _ NaN = False"
| "js_le NInf _ = True"
| "js_le _ PInf = True"
| "js_le PInf _ = False"
| "js_le _ NInf = False"

definition js_gt :: "jsnum \<Rightarrow> jsnum \<Rightarrow> bool" where
  "js_gt a b = js_lt b a"

definition js_ge :: "jsnum \<Rightarrow> jsnum \<Rightarrow> bool" where
  "js_ge a b = js_le b a"

text \<open>Strict equality \<open>===\<close> of two numbers: \<open>NaN\<close> equals nothing.\<close>

definition js_eq :: "jsnum \<Rightarrow> jsnum \<Rightarrow> bool" where
  "js_eq a b = (a = b \<and> a \<noteq> NaN)"

text \<open>Truthiness of a number: \<open>0\<close> and \<open>NaN\<close> are falsy.\<close>

definition js_truthy :: "jsnum \<Rightarrow> bool" where
  "js_truthy a = (a \<noteq> Fin 0 \<and> a \<noteq> NaN)"

text \<open>The functions of \<open>Math\<close> the scanner uses.\<close>

fun js_abs :: "jsnum \<Rightarrow> jsnum" where
  "js_abs (Fin a) = Fin \<bar>a\<bar>"
| "js_abs PInf = PInf"
| "js_abs NInf = PInf"
| "js_abs NaN = NaN"

fun js_sqrt :: "jsnum \<Rightarrow> jsnum" where
  "js_sqrt (Fin a) = (if a < 0 then NaN else Fin (sqrt a))"
| "js_sqrt PInf = PInf"
| "js_sqrt NInf = NaN"
| "js_sqrt NaN = NaN"

text \<open>\<open>Math.pow(x, 2)\<close>.\<close>

fun js_pow2 :: "jsnum \<Rightarrow> jsnum" where
  "js_pow2 (Fin a) = Fin (a * a)"
| "js_pow2 PInf = PInf"
| "js_pow2 NInf = PInf"
| "js_pow2 NaN = NaN"

text \<open>\<open>Math.round\<close> rounds to the nearest integer, a tie towards \<open>+Infinity\<close>.\<close>

fun js_round :: "jsnum \<Rightarrow> jsnum" where
  "js_round (Fin a) = Fin (of_int \<lfloor>a + 1 / 2\<rfloor>)"
| "js_round PInf = PInf"
| "js_round NInf = NInf"
| "js_round NaN = NaN"

fun js_floor :: "jsnum \<Rightarrow> jsnum" where
  "js_floor (Fin a) = Fin (of_int \<lfloor>a\<rfloor>)"
| "js_floor PInf = PInf"
| "js_floor NInf = NInf"
| "js_floor NaN = NaN"

fun js_max :: "jsnum \<Rightarrow> jsnum \<Rightarrow> jsnum" where
  "js_max (Fin a) (Fin b) = Fin (max a b)"
| "js_max NaN _ = NaN"
| "js_max _ NaN = NaN"
| "js_max PInf _ = PInf"
| "js_max _ PInf = PInf"
| "js_max NInf b = b"
| "js_max a NInf = a"

fun js_min :: "jsnum \<Rightarrow> jsnum \<Rightarrow> jsnum" where
  "js_min (Fin a) (Fin b) = Fin (min a b)"
| "js_min NaN _ = NaN"
| "js_min _ NaN = NaN"
| "js_min NInf _ = NInf"
| "js_min _ NInf = NInf"
| "js_min PInf b = b"
| "js_min a PInf = a"

text \<open>\<open>Math.max(...xs)\<close> and \<open>Math.min(...xs)\<close>; of no argument they are
  \<open>-Infinity\<close> and \<open>Infinity\<close>.\<close>

definition js_max_list :: "jsnum list \<Rightarrow> jsnum" where
  "js_max_list xs = foldl js_max NInf xs"

definition js_min_list :: "jsnum list \<Rightarrow> jsnum" where
  "js_min_list xs = foldl js_min PInf xs"

text \<open>\<open>arr.reduce((a, b) => a + b, 0)\<close>.\<close>

definition js_sum :: "jsnum list \<Rightarrow> jsnum" where
  "js_sum arr = foldl js_add (Fin 0) arr"

text \<open>An array index or a length, as a number.\<close>

definition js_nat :: "nat \<Rightarrow> jsnum" where
  "js_nat n = Fin (real n)"

section \<open>Signal processing utilities\<close>

definition calculateMean :: "jsnum list \<Rightarrow> jsnum" where
  "calculateMean arr = js_div (js_sum arr) (js_nat (length arr))"

definition calculateStdDev :: "jsnum list \<Rightarrow> jsnum" where
  "calculateStdDev arr =
     (let mean = calculateMean arr;
          squaredDiffs = map (\<lambda>x. js_pow2 (js_sub x mean)) arr
      in js_sqrt (calculateMean squaredDiffs))"

definition calculateVariance :: "jsnum list \<Rightarrow> jsnum" where
  "calculateVariance arr =
     (let mean = calculateMean arr;
          squaredDiffs = map (\<lambda>x. js_pow2 (js_sub x mean)) arr
      in calculateMean squaredDiffs)"

definition calculateAC :: "jsnum list \<Rightarrow> jsnum" where
  "calculateAC signal =
     (let mean = calculateMean signal;
          deviations = map (\<lambda>x. js_abs (js_sub x mean)) signal
      in js_div (js_sum deviations) (js_nat (length deviations)))"

definition calculateDC :: "jsnum list \<Rightarrow> jsnum" where
  "calculateDC signal = calculateMean signal"

subsection \<open>findPeaks\<close>

text \<open>
  The loop \<^verbatim>\<open>for (let i = 1; i < signal.length - 1; i++)\<close> with its array
  \<open>peaks\<close>, to which \<open>push\<close> appends. The reads \<open>signal[i - 1]\<close>, \<open>signal[i]\<close>
  and \<open>signal[i + 1]\<close> are in range in every iteration. The test
  \<^verbatim>\<open>signal[i] > signal[i - 1] && signal[i] > signal[i + 1]\<close>, which the two peak
  detectors share, is \<open>is_local_max\<close>.
\<close>

definition is_local_max :: "jsnum list \<Rightarrow> nat \<Rightarrow> bool" where
  "is_local_max signal i =
     (js_gt (signal ! i) (signal ! (i - 1)) \<and> js_gt (signal ! i) (signal ! (i + 1)))"

function findPeaks_loop :: "jsnum list \<Rightarrow> jsnum \<Rightarrow> nat \<Rightarrow> nat list \<Rightarrow> nat list" where
  "findPeaks_loop signal threshold i peaks =
     (if int i < int (length signal) - 1 then
        (if is_local_max signal i \<and> js_gt (signal ! i) threshold
         then findPeaks_loop signal threshold (i + 1) (peaks @ [i])
         else findPeaks_loop signal threshold (i + 1) peaks)
      else peaks)"
  by pat_completeness auto
termination
  by (relation "measure (\<lambda>(signal, threshold, i, peaks). length signal - i)") auto

declare findPeaks_loop.simps [simp del]

definition findPeaks :: "jsnum list \<Rightarrow> nat list" where
  "findPeaks signal =
     (let threshold = js_add (calculateMean signal) (js_mul (calculateStdDev signal) (Fin (1 / 2)))
      in findPeaks_loop signal threshold 1 [])"

subsection \<open>findPeaksWithMinDistance\<close>

text \<open>The loop state is the array \<open>peaks\<close> and the number \<open>lastPeakIndex\<close>.\<close>

function findPeaksWithMinDistance_loop ::
  "jsnum list \<Rightarrow> jsnum \<Rightarrow> jsnum \<Rightarrow> nat \<Rightarrow> nat list \<Rightarrow> jsnum \<Rightarrow> nat list" where
  "findPeaksWithMinDistance_loop signal threshold minDistance i peaks lastPeakIndex =
     (if int i < int (length signal) - 1 then
        (if is_local_max signal i \<and> js_gt (signal ! i) threshold \<and>
            js_ge (js_sub (js_nat i) lastPeakIndex) minDistance
         then findPeaksWithMinDistance_loop signal threshold minDistance (i + 1) (peaks @ [i]) (js_nat i)
         else findPeaksWithMinDistance_loop signal threshold minDistance (i + 1) peaks lastPeakIndex)
      else peaks)"
  by pat_completeness auto
termination
  by (relation "measure (\<lambda>(signal, threshold, minDistance, i, peaks, lastPeakIndex).
        length signal - i)") auto

declare findPeaksWithMinDistance_loop.simps [simp del]

definition findPeaksWithMinDistance :: "jsnum list \<Rightarrow> jsnum \<Rightarrow> jsnum \<Rightarrow> nat list" where
  "findPeaksWithMinDistance signal threshold minDistance =
     findPeaksWithMinDistance_loop signal threshold minDistance 1 [] (js_neg minDistance)"

section \<open>The band-pass approximation\<close>

text \<open>
  \<^verbatim>\<open>for (let j = Math.max(0, i - windowSize); j <= Math.min(signal.length - 1, i + windowSize); j++)\<close>
  adds \<open>signal[j]\<close> to \<open>sum\<close> and one to \<open>count\<close>. The bounds are numbers. The
  test \<open>j <= hi\<close> fails at once when a bound is \<open>NaN\<close>, when the lower bound is
  \<open>Infinity\<close> or when the upper bound is \<open>-Infinity\<close>. The lower bound is never
  \<open>-Infinity\<close> and the upper bound never \<open>Infinity\<close>, since they come out of
  \<open>Math.max(0, _)\<close> and \<open>Math.min(signal.length - 1, _)\<close>
  (lemma \<open>window_bounds_finite\<close> below). Two finite bounds are whole numbers
  (\<open>windowSize\<close> comes out of \<open>Math.floor\<close>) between \<open>0\<close> and
  \<open>signal.length - 1\<close>, and \<open>j\<close> runs through the integers from one to the other.
\<close>

definition window_sum_count :: "jsnum list \<Rightarrow> jsnum \<Rightarrow> jsnum \<Rightarrow> jsnum \<times> nat" where
  "window_sum_count signal lo hi =
     (case (lo, hi) of
        (Fin a, Fin b) \<Rightarrow>
          foldl (\<lambda>(sum, count) j. (js_add sum (signal ! nat j), count + 1)) (Fin 0, 0) [\<lfloor>a\<rfloor>..\<lfloor>b\<rfloor>]
      | _ \<Rightarrow> (Fin 0, 0))"

function bandpassFilter_loop :: "jsnum list \<Rightarrow> jsnum \<Rightarrow> nat \<Rightarrow> jsnum list \<Rightarrow> jsnum list" where
  "bandpassFilter_loop signal windowSize i filtered =
     (if i < length signal then
        (let lo = js_max (Fin 0) (js_sub (js_nat i) windowSize);
             hi = js_min (js_sub (js_nat (length signal)) (Fin 1)) (js_add (js_nat i) windowSize);
             (sum, count) = window_sum_count signal lo hi
         in bandpassFilter_loop signal windowSize (i + 1)
              (filtered @ [js_sub (signal ! i) (js_div sum (js_nat count))]))
      else filtered)"
  by pat_completeness auto
termination
  by (relation "measure (\<lambda>(signal, windowSize, i, filtered). length signal - i)") auto

declare bandpassFilter_loop.simps [simp del]

definition bandpassFilter :: "jsnum list \<Rightarrow> jsnum \<Rightarrow> jsnum \<Rightarrow> jsnum \<Rightarrow> jsnum list" where
  "bandpassFilter signal lowFreq highFreq sampleRate =
     (let windowSize = js_floor (js_div sampleRate lowFreq)
      in bandpassFilter_loop signal windowSize 0 [])"

section \<open>The scanner and its estimators\<close>

text \<open>A captured frame \<open>f\<close> with its fields \<open>f.timestamp\<close>, \<open>f.r\<close>, \<open>f.g\<close>
  and \<open>f.b\<close>.\<close>

record frame =
  f_timestamp :: jsnum
  f_r :: jsnum
  f_g :: jsnum
  f_b :: jsnum

text \<open>
  The estimators read \<open>this.frameRate\<close>, here the parameter \<open>frameRate\<close>. The
  constructor sets it to \<open>30\<close> and nothing assigns it again.
\<close>

text \<open>
  The intervals between consecutive peaks:
  \<^verbatim>\<open>for (let i = 1; i < peaks.length; i++) intervals.push(peaks[i] - peaks[i - 1])\<close>.
\<close>

definition peak_intervals :: "nat list \<Rightarrow> jsnum list" where
  "peak_intervals peaks =
     map (\<lambda>i. js_sub (js_nat (peaks ! i)) (js_nat (peaks ! (i - 1)))) [1..<length peaks]"

subsection \<open>detectHeartRate\<close>

definition detectHeartRate :: "jsnum \<Rightarrow> jsnum list \<Rightarrow> jsnum option" where
  "detectHeartRate frameRate signal =
     (let filtered = bandpassFilter signal (Fin (7 / 10)) (Fin 4) frameRate;
          peaks = findPeaks filtered
      in if length peaks < 2 then None
         else
           (let intervals = peak_intervals peaks;
                avgInterval = js_div (js_sum intervals) (js_nat (length intervals));
                bpm = js_round (js_div (js_mul (Fin 60) frameRate) avgInterval)
            in if js_ge bpm (Fin 40) \<and> js_le bpm (Fin 180) then Some bpm else None))"

subsection \<open>estimateSpO2\<close>

definition estimateSpO2 :: "frame list \<Rightarrow> jsnum option" where
  "estimateSpO2 frames =
     (let redSignal = map f_r frames;
          greenSignal = map f_g frames;
          redAC = calculateAC redSignal;
          redDC = calculateDC redSignal;
          greenAC = calculateAC greenSignal;
          greenDC = calculateDC greenSignal
      in if js_eq redDC (Fin 0) \<or> js_eq greenDC (Fin 0) then None
         else
           (let ratio = js_div (js_div redAC redDC) (js_div greenAC greenDC);
                spo2 = js_round (js_sub (Fin 110) (js_mul (Fin 25) ratio))
            in if js_ge spo2 (Fin 85) \<and> js_le spo2 (Fin 100) then Some spo2 else Some (Fin 97)))"

subsection \<open>detectRespiratoryRate\<close>

definition detectRespiratoryRate :: "jsnum \<Rightarrow> jsnum list \<Rightarrow> jsnum" where
  "detectRespiratoryRate frameRate signal =
     (let lowFreqFiltered = bandpassFilter signal (Fin (2 / 10)) (Fin (5 / 10)) frameRate;
          mean = calculateMean lowFreqFiltered;
          stdDev = calculateStdDev lowFreqFiltered;
          threshold = js_add mean (js_mul stdDev (Fin (15 / 10)));
          minPeakDistance = js_floor (js_mul frameRate (Fin (15 / 10)));
          peaks = findPeaksWithMinDistance lowFreqFiltered threshold minPeakDistance
      in if length peaks < 3 then Fin 14
         else
           (let intervals = peak_intervals peaks;
                avgInterval = js_div (js_sum intervals) (js_nat (length intervals));
                filteredIntervals =
                  filter (\<lambda>interval. js_gt interval (js_mul avgInterval (Fin (5 / 10))) \<and>
                                     js_lt interval (js_mul avgInterval (Fin (15 / 10)))) intervals
            in if length filteredIntervals < 2 then Fin 14
               else
                 (let finalAvgInterval =
                        js_div (js_sum filteredIntervals) (js_nat (length filteredIntervals));
                      breathsPerMin = js_round (js_div (js_mul (Fin 60) frameRate) finalAvgInterval)
                  in if js_lt breathsPerMin (Fin 8) then Fin 8
                     else if js_gt breathsPerMin (Fin 25) then Fin 25
                     else breathsPerMin)))"

subsection \<open>estimateTemperature\<close>

text \<open>
  \<open>parseFloat(x.toFixed(1))\<close>: \<open>toFixed(1)\<close> writes \<open>x\<close> with one digit after
  the point, rounding the magnitude to the nearest tenth and a tie upwards; from
  \<open>10^21\<close> on, and for the non-finite values, it writes the number as \<open>String\<close>
  does, and \<open>parseFloat\<close> reads the same number back.
\<close>

fun js_toFixed1 :: "jsnum \<Rightarrow> jsnum" where
  "js_toFixed1 (Fin x) =
     (if \<bar>x\<bar> \<ge> 10 ^ 21 then Fin x
      else if x < 0 then Fin (- (of_int \<lfloor>- x * 10 + 1 / 2\<rfloor> / 10))
      else Fin (of_int \<lfloor>x * 10 + 1 / 2\<rfloor> / 10))"
| "js_toFixed1 PInf = PInf"
| "js_toFixed1 NInf = NInf"
| "js_toFixed1 NaN = NaN"

definition estimateTemperature :: "frame list \<Rightarrow> jsnum" where
  "estimateTemperature frames =
     (let avgRed = js_div (foldl (\<lambda>sum f. js_add sum (f_r f)) (Fin 0) frames) (js_nat (length frames));
          avgGreen = js_div (foldl (\<lambda>sum f. js_add sum (f_g f)) (Fin 0) frames) (js_nat (length frames));
          ratio = js_div avgRed avgGreen;
          tempCelsius = js_add (Fin 36) (js_mul (js_sub ratio (Fin 1)) (Fin 2))
      in js_max (Fin (355 / 10)) (js_min (Fin (385 / 10)) (js_toFixed1 tempCelsius)))"

subsection \<open>estimateBloodPressure\<close>

record bloodPressure =
  systolic :: "jsnum option"
  diastolic :: "jsnum option"

text \<open>
  The two calls of \<open>Math.random()\<close> are the parameters \<open>random1\<close> (the jitter of
  the systolic value) and \<open>random2\<close> (the diastolic ratio), in the order of the calls.
  The function is written in two parts: \<open>estimateBloodPressure\<close> computes the pulse
  wave characteristics, and \<open>estimateBloodPressure_factors\<close> is the rest of its body,
  from \<^verbatim>\<open>const normalHR = 70\<close> to the \<open>return\<close>.
\<close>

definition estimateBloodPressure_factors ::
  "jsnum \<Rightarrow> jsnum \<Rightarrow> jsnum \<Rightarrow> jsnum \<Rightarrow> real \<Rightarrow> real \<Rightarrow> bloodPressure" where
  "estimateBloodPressure_factors heartRate rmssd normalizedAmplitude variance random1 random2 =
     (let normalHR = Fin 70;
          hrDeviation = js_sub heartRate normalHR;
          hrFactor = js_max (Fin (- 15)) (js_min (Fin 15) (js_mul hrDeviation (Fin (3 / 10))));
          normalRMSSD = Fin 30;
          hrvDeviation = js_sub normalRMSSD rmssd;
          hrvFactor = js_max (Fin (- 10)) (js_min (Fin 10) (js_mul hrvDeviation (Fin (2 / 10))));
          amplitudeFactor = js_mul (js_sub normalizedAmplitude (Fin (5 / 10))) (Fin 10);
          varianceFactor = js_max (Fin (- 5)) (js_min (Fin 5) (js_mul variance (Fin 3)));
          randomFactor = js_mul (js_sub (Fin random1) (Fin (5 / 10))) (Fin 6);
          systolic =
            js_round (js_add (js_add (js_add (js_add (js_add (Fin 120) hrFactor) hrvFactor)
              amplitudeFactor) varianceFactor) randomFactor);
          diastolicRatio =
            js_add (Fin (65 / 100)) (js_mul (js_sub (Fin random2) (Fin (5 / 10))) (Fin (1 / 10)));
          diastolic = js_round (js_mul systolic diastolicRatio);
          finalSystolic = js_max (Fin 95) (js_min (Fin 145) systolic);
          finalDiastolic = js_max (Fin 60) (js_min (Fin 95) diastolic);
          properDiastolic = js_min finalDiastolic (js_sub finalSystolic (Fin 25))
      in \<lparr>systolic = Some finalSystolic, diastolic = Some properDiastolic\<rparr>)"

definition estimateBloodPressure :: "jsnum \<Rightarrow> real \<Rightarrow> real \<Rightarrow> jsnum list \<Rightarrow> bloodPressure" where
  "estimateBloodPressure frameRate random1 random2 signal =
     (let filtered = bandpassFilter signal (Fin (7 / 10)) (Fin 4) frameRate;
          peaks = findPeaks filtered
      in if length peaks < 3 then \<lparr>systolic = None, diastolic = None\<rparr>
         else
           (let intervals = peak_intervals peaks;
                avgInterval = js_div (js_sum intervals) (js_nat (length intervals));
                variance = calculateVariance intervals;
                heartRate = js_round (js_div (js_mul (Fin 60) frameRate) avgInterval);
                peakValues = map (\<lambda>idx. filtered ! idx) peaks;
                avgPeakAmplitude = js_div (js_sum peakValues) (js_nat (length peakValues));
                maxAmplitude = js_max_list peakValues;
                minAmplitude = js_min_list peakValues;
                normalizedAmplitude =
                  (if js_gt maxAmplitude minAmplitude
                   then js_div (js_sub avgPeakAmplitude minAmplitude) (js_sub maxAmplitude minAmplitude)
                   else Fin (5 / 10));
                squaredDiffs =
                  map (\<lambda>i. js_pow2 (js_sub (intervals ! i) (intervals ! (i - 1)))) [1..<length intervals];
                rmssd = js_sqrt (js_div (js_sum squaredDiffs) (js_nat (length squaredDiffs)))
            in estimateBloodPressure_factors heartRate rmssd normalizedAmplitude variance
                 random1 random2))"

subsection \<open>calculateHealthScore\<close>

text \<open>
  \<open>this.results\<close>, with \<open>None\<close> for \<open>null\<close>, and \<open>this.historicalData\<close>, the
  object the server sent or \<open>{}\<close>: a field is a number, or it is \<open>null\<close> or
  missing (\<open>None\<close>; both are falsy).
\<close>

record results =
  heartRate :: "jsnum option"
  spo2 :: "jsnum option"
  respiratoryRate :: "jsnum option"
  temperature :: "jsnum option"
  bloodPressure :: bloodPressure

record historicalData =
  hist_heart_rate :: "jsnum option"
  hist_spo2 :: "jsnum option"
  hist_respiratory_rate :: "jsnum option"
  hist_temperature :: "jsnum option"
  hist_blood_pressure_systolic :: "jsnum option"
  hist_blood_pressure_diastolic :: "jsnum option"

text \<open>Truthiness of a value that is a number, \<open>null\<close> or \<open>undefined\<close>.\<close>

definition truthy :: "jsnum option \<Rightarrow> bool" where
  "truthy v = (case v of None \<Rightarrow> False | Some x \<Rightarrow> js_truthy x)"

text \<open>\<^verbatim>\<open>if (v === null && historical) v = historical\<close>.\<close>

definition with_fallback :: "jsnum option \<Rightarrow> jsnum option \<Rightarrow> jsnum option" where
  "with_fallback v historical = (if v = None \<and> truthy historical then historical else v)"

text \<open>The bands of each field, in the order of the source's \<open>if\<close> chains.\<close>

definition heartRate_band :: "jsnum \<Rightarrow> jsnum" where
  "heartRate_band hr =
     (if js_ge hr (Fin 60) \<and> js_le hr (Fin 100) then Fin 100
      else if (js_ge hr (Fin 50) \<and> js_lt hr (Fin 60)) \<or> (js_gt hr (Fin 100) \<and> js_le hr (Fin 110))
        then Fin 80
      else if (js_ge hr (Fin 40) \<and> js_lt hr (Fin 50)) \<or> (js_gt hr (Fin 110) \<and> js_le hr (Fin 120))
        then Fin 60
      else Fin 40)"

definition spo2_band :: "jsnum \<Rightarrow> jsnum" where
  "spo2_band sp =
     (if js_ge sp (Fin 95) then Fin 100
      else if js_ge sp (Fin 90) \<and> js_lt sp (Fin 95) then Fin 80
      else if js_ge sp (Fin 85) \<and> js_lt sp (Fin 90) then Fin 60
      else Fin 40)"

definition respiratoryRate_band :: "jsnum \<Rightarrow> jsnum" where
  "respiratoryRate_band rr =
     (if js_ge rr (Fin 12) \<and> js_le rr (Fin 20) then Fin 100
      else if (js_ge rr (Fin 8) \<and> js_lt rr (Fin 12)) \<or> (js_gt rr (Fin 20) \<and> js_le rr (Fin 25))
        then Fin 80
      else Fin 60)"

definition temperature_band :: "jsnum \<Rightarrow> jsnum" where
  "temperature_band temp =
     (if js_ge temp (Fin (361 / 10)) \<and> js_le temp (Fin (375 / 10)) then Fin 100
      else if (js_ge temp (Fin (355 / 10)) \<and> js_lt temp (Fin (361 / 10))) \<or>
              (js_gt temp (Fin (375 / 10)) \<and> js_le temp (Fin (383 / 10)))
        then Fin 80
      else Fin 60)"

definition bloodPressure_band :: "jsnum \<Rightarrow> jsnum \<Rightarrow> jsnum" where
  "bloodPressure_band sys dia =
     (if js_ge sys (Fin 90) \<and> js_le sys (Fin 120) \<and> js_ge dia (Fin 60) \<and> js_le dia (Fin 80)
        then Fin 100
      else if (js_gt sys (Fin 120) \<and> js_le sys (Fin 130)) \<or> (js_gt dia (Fin 80) \<and> js_le dia (Fin 85))
        then Fin 85
      else if (js_gt sys (Fin 130) \<and> js_le sys (Fin 140)) \<or> (js_gt dia (Fin 85) \<and> js_le dia (Fin 90))
        then Fin 70
      else if js_gt sys (Fin 140) \<or> js_gt dia (Fin 90) then Fin 50
      else if js_lt sys (Fin 90) \<or> js_lt dia (Fin 60) then Fin 60
      else Fin 100)"

text \<open>\<^verbatim>\<open>if (v) scores.push(band(v))\<close>. The array \<open>scores\<close> after the five
  fields is \<open>health_scores\<close>; \<open>calculateHealthScore\<close> goes on from it.\<close>

definition push_score :: "jsnum list \<Rightarrow> jsnum option \<Rightarrow> (jsnum \<Rightarrow> jsnum) \<Rightarrow> jsnum list" where
  "push_score scores v band =
     (case v of None \<Rightarrow> scores | Some x \<Rightarrow> if js_truthy x then scores @ [band x] else scores)"

text \<open>\<^verbatim>\<open>if (sys && dia) scores.push(band(sys, dia))\<close>.\<close>

definition push_score2 ::
  "jsnum list \<Rightarrow> jsnum option \<Rightarrow> jsnum option \<Rightarrow> (jsnum \<Rightarrow> jsnum \<Rightarrow> jsnum) \<Rightarrow> jsnum list" where
  "push_score2 scores sys dia band =
     (case (sys, dia) of
        (Some s, Some d) \<Rightarrow> if js_truthy s \<and> js_truthy d then scores @ [band s d] else scores
      | _ \<Rightarrow> scores)"

definition health_scores :: "results \<Rightarrow> historicalData \<Rightarrow> jsnum list" where
  "health_scores res hist =
     (let scores = [];
          hr = with_fallback (heartRate res) (hist_heart_rate hist);
          scores = push_score scores hr heartRate_band;
          sp = with_fallback (spo2 res) (hist_spo2 hist);
          scores = push_score scores sp spo2_band;
          rr = with_fallback (respiratoryRate res) (hist_respiratory_rate hist);
          scores = push_score scores rr respiratoryRate_band;
          temp = with_fallback (temperature res) (hist_temperature hist);
          scores = push_score scores temp temperature_band;
          sys = with_fallback (systolic (bloodPressure res)) (hist_blood_pressure_systolic hist);
          dia = with_fallback (diastolic (bloodPressure res)) (hist_blood_pressure_diastolic hist);
          scores = push_score2 scores sys dia bloodPressure_band
      in scores)"

definition calculateHealthScore :: "results \<Rightarrow> historicalData \<Rightarrow> jsnum" where
  "calculateHealthScore res hist =
     (let scores = health_scores res hist
      in if length scores = 0 then Fin 0
         else js_round (js_div (js_sum scores) (js_nat (length scores))))"

section \<open>Reference definitions\<close>

text \<open>
  Definitions over the reals, for the example series the scanner's functions are
  evaluated on, and the estimators as the specification words them, written with
  the arithmetic of the scanner.
\<close>

definition mean :: "real list \<Rightarrow> real" where
  "mean xs = sum_list xs / real (length xs)"

definition variance :: "real list \<Rightarrow> real" where
  "variance xs = mean (map (\<lambda>x. (x - mean xs) * (x - mean xs)) xs)"

text \<open>
  The centred moving average of half-width \<open>w\<close> at index \<open>i\<close>: the mean of
  \<open>xs[j]\<close> over \<open>max 0 (i - w) \<le> j \<le> min (n - 1) (i + w)\<close>; and the series less its
  moving average.
\<close>

definition moving_average :: "real list \<Rightarrow> nat \<Rightarrow> nat \<Rightarrow> real" where
  "moving_average xs w i =
     (let lo = i - w; hi = min (length xs - 1) (i + w)
      in sum_list (map (\<lambda>j. xs ! j) [lo..<Suc hi]) / real (Suc hi - lo))"

definition detrend :: "real list \<Rightarrow> nat \<Rightarrow> real list" where
  "detrend xs w = map (\<lambda>i. xs ! i - moving_average xs w i) [0..<length xs]"




text \<open>The intervals between consecutive peaks, in samples.\<close>

definition intervals :: "nat list \<Rightarrow> real list" where
  "intervals peaks = map (\<lambda>i. real (peaks ! i) - real (peaks ! (i - 1))) [1..<length peaks]"









text \<open>
  A series of \<open>183\<close> samples of the green channel (a little over six seconds at \<open>30\<close>
  frames a second), at rest at \<open>0\<close>, with a pulse of height \<open>1\<close> at the indices
  \<open>1\<close>, \<open>46\<close> and \<open>181\<close>.
\<close>

definition breath_signal :: "real list" where
  "breath_signal = map (\<lambda>i. if i = 1 \<or> i = 46 \<or> i = 181 then 1 else 0) [0..<183]"

text \<open>The series \<open>breath_signal\<close> less its moving average of half-width \<open>150\<close>.\<close>

definition breath_filtered :: "real list" where
  "breath_filtered = detrend breath_signal 150"

text \<open>
  A series to evaluate the estimators on: \<open>23\<close> samples of the green channel, at rest
  at \<open>0\<close>, with a pulse of height \<open>1\<close> at the indices \<open>1\<close>, \<open>11\<close> and \<open>21\<close>.
\<close>

definition pulse_signal :: "real list" where
  "pulse_signal = [0, 1, 0, 0, 0, 0, 0, 0, 0, 0, 0, 1, 0, 0, 0, 0, 0, 0, 0, 0, 0, 1, 0]"

text \<open>
  A frame whose fields are finite numbers.
\<close>

definition sample_frame :: "real \<times> real \<times> real \<times> real \<Rightarrow> frame" where
  "sample_frame s =
     (case s of (t, red, green, blue) \<Rightarrow>
        \<lparr>f_timestamp = Fin t, f_r = Fin red, f_g = Fin green, f_b = Fin blue\<rparr>)"



text \<open>
  The sub-scores a band can give, and a list of at most \<open>n\<close> of them as an array of
  numbers.
\<close>

definition sub_scores :: "real set" where
  "sub_scores = {40, 50, 60, 70, 80, 85, 100}"

definition scores_upto :: "nat \<Rightarrow> jsnum list \<Rightarrow> real list \<Rightarrow> bool" where
  "scores_upto n scores rs = (scores = map Fin rs \<and> set rs \<subseteq> sub_scores \<and> length rs \<le> n)"

text \<open>The readings of the two cases the specification names: nothing estimated, and
  every field at its ideal value.\<close>

definition no_results :: results where
  "no_results =
     \<lparr>heartRate = None, spo2 = None, respiratoryRate = None, temperature = None,
      bloodPressure = \<lparr>systolic = None, diastolic = None\<rparr>\<rparr>"

definition no_history :: historicalData where
  "no_history =
     \<lparr>hist_heart_rate = None, hist_spo2 = None, hist_respiratory_rate = None,
      hist_temperature = None, hist_blood_pressure_systolic = None,
      hist_blood_pressure_diastolic = None\<rparr>"

definition ideal_results :: results where
  "ideal_results =
     \<lparr>heartRate = Some (Fin 72), spo2 = Some (Fin 98), respiratoryRate = Some (Fin 16),
      temperature = Some (Fin (368 / 10)),
      bloodPressure = \<lparr>systolic = Some (Fin 110), diastolic = Some (Fin 75)\<rparr>\<rparr>"

text \<open>
  The sub-scores of a reading, field by field. The value a field is scored on is the
  live estimate when that is not \<open>null\<close>, and the historical value otherwise. A
  field is included when that value is a number other than \<open>0\<close> and \<open>NaN\<close>,
  with the sub-score of its band; the blood pressure is included when both its
  systolic and its diastolic value are. \<open>included_sub_scores\<close> lists the sub-scores
  of the included fields in the order heart rate, oxygen saturation, respiratory rate,
  temperature, blood pressure.
\<close>

definition resolved_value :: "jsnum option \<Rightarrow> jsnum option \<Rightarrow> jsnum option" where
  "resolved_value live historical = (case live of Some v \<Rightarrow> Some v | None \<Rightarrow> historical)"

definition field_sub_score ::
  "(jsnum \<Rightarrow> jsnum) \<Rightarrow> jsnum option \<Rightarrow> jsnum option \<Rightarrow> jsnum list" where
  "field_sub_score band live historical =
     (case resolved_value live historical of
        None \<Rightarrow> []
      | Some v \<Rightarrow> if v = Fin 0 \<or> v = NaN then [] else [band v])"

definition pressure_sub_score ::
  "jsnum option \<Rightarrow> jsnum option \<Rightarrow> jsnum option \<Rightarrow> jsnum option \<Rightarrow> jsnum list" where
  "pressure_sub_score liveSys historicalSys liveDia historicalDia =
     (case (resolved_value liveSys historicalSys, resolved_value liveDia historicalDia) of
        (Some s, Some d) \<Rightarrow>
          if s = Fin 0 \<or> s = NaN \<or> d = Fin 0 \<or> d = NaN then [] else [bloodPressure_band s d]
      | _ \<Rightarrow> [])"

definition included_sub_scores :: "results \<Rightarrow> historicalData \<Rightarrow> jsnum list" where
  "included_sub_scores res hist =
     field_sub_score heartRate_band (heartRate res) (hist_heart_rate hist) @
     field_sub_score spo2_band (spo2 res) (hist_spo2 hist) @
     field_sub_score respiratoryRate_band (respiratoryRate res) (hist_respiratory_rate hist) @
     field_sub_score temperature_band (temperature res) (hist_temperature hist) @
     pressure_sub_score (systolic (bloodPressure res)) (hist_blood_pressure_systolic hist)
       (diastolic (bloodPressure res)) (hist_blood_pressure_diastolic hist)"

text \<open>A historical record that holds the ideal value of every field.\<close>

definition ideal_history :: historicalData where
  "ideal_history =
     \<lparr>hist_heart_rate = Some (Fin 72), hist_spo2 = Some (Fin 98),
      hist_respiratory_rate = Some (Fin 16), hist_temperature = Some (Fin (368 / 10)),
      hist_blood_pressure_systolic = Some (Fin 110),
      hist_blood_pressure_diastolic = Some (Fin 75)\<rparr>"

section \<open>Properties\<close>

subsection \<open>Arithmetic on finite numbers\<close>

lemma js_sub_Fin [simp]: "js_sub (Fin x) (Fin y) = Fin (x - y)"
  by (simp add: js_sub_def)

lemma js_gt_Fin [simp]: "js_gt (Fin x) (Fin y) = (y < x)"
  by (simp add: js_gt_def)

lemma js_ge_Fin [simp]: "js_ge (Fin x) (Fin y) = (y \<le> x)"
  by (simp add: js_ge_def)


subsection \<open>The simple peak detector\<close>

lemma findPeaks_loop_filter:
  "findPeaks_loop signal threshold i peaks =
     peaks @ filter (\<lambda>k. is_local_max signal k \<and> js_gt (signal ! k) threshold) [i..<length signal - 1]"
proof (induction signal threshold i peaks rule: findPeaks_loop.induct)
  case (1 signal threshold i peaks)
  show ?case
  proof (cases "int i < int (length signal) - 1")
    case True
    then have lt: "i < length signal - 1" by linarith
    then have range: "[i..<length signal - Suc 0] = i # [Suc i..<length signal - Suc 0]"
      by (simp add: upt_conv_Cons)
    show ?thesis
      using 1 True by (subst findPeaks_loop.simps) (simp add: range)
  next
    case False
    then have "[i..<length signal - 1] = []" by simp
    with False show ?thesis
      by (subst findPeaks_loop.simps) simp
  qed
qed

lemma findPeaks_short: "length signal < 3 \<Longrightarrow> findPeaks signal = []"
  by (simp add: findPeaks_def findPeaks_loop_filter)



subsection \<open>The minimum-distance peak detector\<close>

lemma findPeaksWithMinDistance_loop_step:
  "int i < int (length signal) - 1 \<Longrightarrow>
   findPeaksWithMinDistance_loop signal threshold minDistance i peaks lastPeakIndex =
     (if is_local_max signal i \<and> js_gt (signal ! i) threshold \<and>
         js_ge (js_sub (js_nat i) lastPeakIndex) minDistance
      then findPeaksWithMinDistance_loop signal threshold minDistance (i + 1) (peaks @ [i]) (js_nat i)
      else findPeaksWithMinDistance_loop signal threshold minDistance (i + 1) peaks lastPeakIndex)"
  by (subst findPeaksWithMinDistance_loop.simps) simp

lemma findPeaksWithMinDistance_loop_stop:
  "\<not> int i < int (length signal) - 1 \<Longrightarrow>
   findPeaksWithMinDistance_loop signal threshold minDistance i peaks lastPeakIndex = peaks"
  by (subst findPeaksWithMinDistance_loop.simps) simp

lemma minDistance_loop_invariant_aux:
  "minDistance = Fin d \<Longrightarrow> lastPeakIndex = Fin l \<Longrightarrow>
   \<exists>rest. findPeaksWithMinDistance_loop signal threshold minDistance i peaks lastPeakIndex = peaks @ rest \<and>
      successively (\<lambda>a b. d \<le> real b - real a) rest \<and>
      (rest \<noteq> [] \<longrightarrow> d \<le> real (hd rest) - l) \<and>
      (\<forall>k \<in> set rest. i \<le> k \<and> int k < int (length signal) - 1 \<and>
          is_local_max signal k \<and> js_gt (signal ! k) threshold)"
proof (induction signal threshold minDistance i peaks lastPeakIndex arbitrary: l
    rule: findPeaksWithMinDistance_loop.induct)
  case (1 signal threshold minDistance i peaks lastPeakIndex)
  note md = \<open>minDistance = Fin d\<close> and last = \<open>lastPeakIndex = Fin l\<close>
  have "\<exists>rest. findPeaksWithMinDistance_loop signal threshold (Fin d) i peaks (Fin l) = peaks @ rest \<and>
      successively (\<lambda>a b. d \<le> real b - real a) rest \<and>
      (rest \<noteq> [] \<longrightarrow> d \<le> real (hd rest) - l) \<and>
      (\<forall>k \<in> set rest. i \<le> k \<and> int k < int (length signal) - 1 \<and>
          is_local_max signal k \<and> js_gt (signal ! k) threshold)"
  proof (cases "int i < int (length signal) - 1")
    case False
    then show ?thesis
      by (simp add: findPeaksWithMinDistance_loop_stop)
  next
    case True
    show ?thesis
    proof (cases "is_local_max signal i \<and> js_gt (signal ! i) threshold \<and>
         js_ge (js_sub (js_nat i) (Fin l)) (Fin d)")
      case accept: True
      from "1.IH"(1) [OF True accept [folded md last] md, of "real i"]
      obtain rest where rest:
        "findPeaksWithMinDistance_loop signal threshold (Fin d) (i + 1) (peaks @ [i]) (Fin (real i))
           = (peaks @ [i]) @ rest"
        "successively (\<lambda>a b. d \<le> real b - real a) rest"
        "rest \<noteq> [] \<longrightarrow> d \<le> real (hd rest) - real i"
        "\<forall>k \<in> set rest. i + 1 \<le> k \<and> int k < int (length signal) - 1 \<and>
          is_local_max signal k \<and> js_gt (signal ! k) threshold"
        by (auto simp: js_nat_def md)
      have "findPeaksWithMinDistance_loop signal threshold (Fin d) i peaks (Fin l) = peaks @ (i # rest)"
        using True accept rest(1) by (simp add: findPeaksWithMinDistance_loop_step js_nat_def)
      moreover have "successively (\<lambda>a b. d \<le> real b - real a) (i # rest)"
        using rest(2,3) by (cases rest) auto
      moreover have "d \<le> real (hd (i # rest)) - l"
        using accept by (simp add: js_nat_def)
      moreover have "\<forall>k \<in> set (i # rest). i \<le> k \<and> int k < int (length signal) - 1 \<and>
          is_local_max signal k \<and> js_gt (signal ! k) threshold"
        using rest(4) accept True by auto
      ultimately show ?thesis by blast
    next
      case reject: False
      from "1.IH"(2) [OF True reject [folded md last] md last]
      obtain rest where rest:
        "findPeaksWithMinDistance_loop signal threshold (Fin d) (i + 1) peaks (Fin l) = peaks @ rest"
        "successively (\<lambda>a b. d \<le> real b - real a) rest"
        "rest \<noteq> [] \<longrightarrow> d \<le> real (hd rest) - l"
        "\<forall>k \<in> set rest. i + 1 \<le> k \<and> int k < int (length signal) - 1 \<and>
          is_local_max signal k \<and> js_gt (signal ! k) threshold"
        by (auto simp: md last)
      have "findPeaksWithMinDistance_loop signal threshold (Fin d) i peaks (Fin l) = peaks @ rest"
        using True reject rest(1) by (auto simp: findPeaksWithMinDistance_loop_step)
      moreover have "\<forall>k \<in> set rest. i \<le> k \<and> int k < int (length signal) - 1 \<and>
          is_local_max signal k \<and> js_gt (signal ! k) threshold"
        using rest(4) by auto
      ultimately show ?thesis using rest(2,3) by blast
    qed
  qed
  then show ?case
    by (simp only: md last)
qed

lemma minDistance_loop_invariant:
  "\<exists>rest. findPeaksWithMinDistance_loop signal threshold (Fin d) i peaks (Fin l) = peaks @ rest \<and>
      successively (\<lambda>a b. d \<le> real b - real a) rest \<and>
      (rest \<noteq> [] \<longrightarrow> d \<le> real (hd rest) - l) \<and>
      (\<forall>k \<in> set rest. i \<le> k \<and> int k < int (length signal) - 1 \<and>
          is_local_max signal k \<and> js_gt (signal ! k) threshold)"
  by (rule minDistance_loop_invariant_aux) simp_all

lemma minDistance_loop_first:
  assumes "i \<le> c" and "int c < int (length signal) - 1"
    and "is_local_max signal c" and "js_gt (signal ! c) threshold"
    and "\<forall>k. i \<le> k \<and> k < c \<longrightarrow> \<not> (is_local_max signal k \<and> js_gt (signal ! k) threshold)"
  shows "\<exists>rest. findPeaksWithMinDistance_loop signal threshold (Fin d) i [] (Fin (- d)) = c # rest"
  using assms
proof (induction "c - i" arbitrary: i)
  case 0
  then have "i = c" by simp
  have acc: "js_ge (js_sub (js_nat c) (Fin (- d))) (Fin d)"
    by (simp add: js_nat_def)
  obtain rest where
    "findPeaksWithMinDistance_loop signal threshold (Fin d) (c + 1) ([] @ [c]) (Fin (real c)) = ([] @ [c]) @ rest"
    using minDistance_loop_invariant [of signal threshold d "c + 1" "[] @ [c]" "real c"] by blast
  then show ?case
    using 0 acc \<open>i = c\<close> by (simp add: findPeaksWithMinDistance_loop_step js_nat_def)
next
  case (Suc n)
  then have "i < c" by simp
  then have no: "\<not> (is_local_max signal i \<and> js_gt (signal ! i) threshold)"
    using Suc.prems by simp
  have inr: "int i < int (length signal) - 1"
    using \<open>i < c\<close> Suc.prems(2) by simp
  have "\<exists>rest. findPeaksWithMinDistance_loop signal threshold (Fin d) (i + 1) [] (Fin (- d)) = c # rest"
    using Suc.hyps(2) Suc.prems \<open>i < c\<close> by (intro Suc.hyps(1)) auto
  then show ?case
    using no inr by (auto simp: findPeaksWithMinDistance_loop_step)
qed

text \<open>
  C9. In \<open>findPeaksWithMinDistance\<close> with a finite \<open>minDistance\<close> \<open>d\<close>, the first
  candidate \<open>c\<close> (a local maximum above the threshold at an index of the loop, with no
  such index before it) is accepted whatever its index: the result is not empty and
  starts with \<open>c\<close>, since \<open>lastPeakIndex\<close> starts at \<open>-d\<close> and \<open>c - (-d) >= d\<close>.
  Every later accepted index is at least \<open>d\<close> greater than the one accepted before it.
\<close>

theorem findPeaksWithMinDistance_first_and_spacing:
  fixes d :: real
  shows "(\<forall>c. 1 \<le> c \<and> int c < int (length signal) - 1 \<and>
          is_local_max signal c \<and> js_gt (signal ! c) threshold \<and>
          (\<forall>k. 1 \<le> k \<and> k < c \<longrightarrow> \<not> (is_local_max signal k \<and> js_gt (signal ! k) threshold))
        \<longrightarrow> findPeaksWithMinDistance signal threshold (Fin d) \<noteq> [] \<and>
            hd (findPeaksWithMinDistance signal threshold (Fin d)) = c) \<and>
     (\<forall>k. Suc k < length (findPeaksWithMinDistance signal threshold (Fin d)) \<longrightarrow>
        d \<le> real (findPeaksWithMinDistance signal threshold (Fin d) ! Suc k)
              - real (findPeaksWithMinDistance signal threshold (Fin d) ! k))"
proof (intro conjI allI impI)
  fix c
  assume c: "1 \<le> c \<and> int c < int (length signal) - 1 \<and>
          is_local_max signal c \<and> js_gt (signal ! c) threshold \<and>
          (\<forall>k. 1 \<le> k \<and> k < c \<longrightarrow> \<not> (is_local_max signal k \<and> js_gt (signal ! k) threshold))"
  then obtain rest where
    "findPeaksWithMinDistance_loop signal threshold (Fin d) 1 [] (Fin (- d)) = c # rest"
    using minDistance_loop_first [of 1 c signal threshold d] by blast
  then show "findPeaksWithMinDistance signal threshold (Fin d) \<noteq> []"
    and "hd (findPeaksWithMinDistance signal threshold (Fin d)) = c"
    by (simp_all add: findPeaksWithMinDistance_def)
next
  fix k
  assume k: "Suc k < length (findPeaksWithMinDistance signal threshold (Fin d))"
  obtain rest where rest:
    "findPeaksWithMinDistance_loop signal threshold (Fin d) 1 [] (Fin (- d)) = [] @ rest"
    "successively (\<lambda>a b. d \<le> real b - real a) rest"
    using minDistance_loop_invariant [of signal threshold d 1 "[]" "- d"] by blast
  then have "findPeaksWithMinDistance signal threshold (Fin d) = rest"
    by (simp add: findPeaksWithMinDistance_def)
  with rest(2) k show "d \<le> real (findPeaksWithMinDistance signal threshold (Fin d) ! Suc k)
              - real (findPeaksWithMinDistance signal threshold (Fin d) ! k)"
    by (simp add: successively_conv_nth)
qed


theorem findPeaksWithMinDistance_first_and_spacing_witness:
  "is_local_max [Fin 0, Fin 2, Fin 0, Fin 3, Fin 0] 1 \<and>
   js_gt ([Fin 0, Fin 2, Fin 0, Fin 3, Fin 0] ! 1) (Fin 1) \<and>
   findPeaksWithMinDistance [Fin 0, Fin 2, Fin 0, Fin 3, Fin 0] (Fin 1) (Fin 2) = [1, 3] \<and>
   hd (findPeaksWithMinDistance [Fin 0, Fin 2, Fin 0, Fin 3, Fin 0] (Fin 1) (Fin 2)) = 1 \<and>
   (2 :: real) \<le> real (findPeaksWithMinDistance [Fin 0, Fin 2, Fin 0, Fin 3, Fin 0] (Fin 1) (Fin 2) ! Suc 0)
     - real (findPeaksWithMinDistance [Fin 0, Fin 2, Fin 0, Fin 3, Fin 0] (Fin 1) (Fin 2) ! 0)"
proof -
  let ?s = "[Fin 0, Fin 2, Fin 0, Fin 3, Fin 0]"
  have cand: "is_local_max ?s 1 \<and> js_gt (?s ! 1) (Fin 1)"
    by (simp add: is_local_max_def)
  have peaks: "findPeaksWithMinDistance ?s (Fin 1) (Fin 2) = [1, 3]"
    by (simp add: findPeaksWithMinDistance_def findPeaksWithMinDistance_loop_step
        findPeaksWithMinDistance_loop_stop is_local_max_def js_nat_def)
  have first: "hd (findPeaksWithMinDistance ?s (Fin 1) (Fin 2)) = 1"
    using findPeaksWithMinDistance_first_and_spacing [of ?s "Fin 1" 2] cand by simp
  have gap: "(2 :: real) \<le> real (findPeaksWithMinDistance ?s (Fin 1) (Fin 2) ! Suc 0)
     - real (findPeaksWithMinDistance ?s (Fin 1) (Fin 2) ! 0)"
    using findPeaksWithMinDistance_first_and_spacing [of ?s "Fin 1" 2] peaks by simp
  from cand peaks first gap show ?thesis by blast
qed

subsection \<open>Series of finite numbers\<close>

lemma foldl_js_add_Fin: "foldl js_add (Fin a) (map Fin xs) = Fin (a + sum_list xs)"
  by (induction xs arbitrary: a) (simp_all add: add.assoc)

lemma js_sum_Fin [simp]: "js_sum (map Fin xs) = Fin (sum_list xs)"
  by (simp add: js_sum_def foldl_js_add_Fin)

lemma js_sum_Nil [simp]: "js_sum [] = Fin 0"
  by (simp add: js_sum_def)

lemma calculateMean_Nil [simp]: "calculateMean [] = NaN"
  by (simp add: calculateMean_def js_nat_def)

lemma calculateMean_Fin:
  "calculateMean (map Fin xs) = (if xs = [] then NaN else Fin (mean xs))"
  by (simp add: calculateMean_def js_nat_def mean_def)

lemma squaredDiffs_Fin:
  "map (\<lambda>x. js_pow2 (js_sub x (Fin m))) (map Fin xs) = map Fin (map (\<lambda>x. (x - m) * (x - m)) xs)"
  by simp

lemma calculateVariance_Fin:
  "calculateVariance (map Fin xs) = (if xs = [] then NaN else Fin (variance xs))"
  by (simp add: calculateVariance_def calculateMean_Fin squaredDiffs_Fin variance_def
      del: map_map)

lemma sum_list_nonneg_sq: "0 \<le> sum_list (map (\<lambda>x. (x - m) * (x - m)) xs)" for m :: real
  by (rule sum_list_nonneg) auto

lemma variance_nonneg: "0 \<le> variance xs"
  by (simp add: variance_def mean_def sum_list_nonneg_sq)

lemma calculateStdDev_Fin:
  "calculateStdDev (map Fin xs) = (if xs = [] then NaN else Fin (sqrt (variance xs)))"
proof -
  have "\<not> variance xs < 0" using variance_nonneg [of xs] by simp
  then show ?thesis
    by (simp add: calculateStdDev_def calculateMean_Fin squaredDiffs_Fin variance_def
        del: map_map)
qed

lemma upto_int_nat: "[int a..int b] = map int [a..<Suc b]"
  by (rule nth_equalityI) (auto simp: nth_append)

lemma window_fold_Fin:
  assumes "\<forall>j \<in> set js. j < length xs"
  shows "foldl (\<lambda>(sum, count) j. (js_add sum (map Fin xs ! nat j), count + 1)) (Fin s, c) (map int js)
       = (Fin (s + sum_list (map (\<lambda>j. xs ! j) js)), c + length js)"
  using assms by (induction js arbitrary: s c) (simp_all add: add.assoc)

lemma window_sum_count_Fin:
  assumes "hi < length xs"
  shows "window_sum_count (map Fin xs) (Fin (real lo)) (Fin (real hi))
       = (Fin (sum_list (map (\<lambda>j. xs ! j) [lo..<Suc hi])), Suc hi - lo)"
proof -
  have "\<forall>j \<in> set [lo..<Suc hi]. j < length xs" using assms by auto
  from window_fold_Fin [OF this, of 0 0] show ?thesis
    by (simp add: window_sum_count_def upto_int_nat del: upt_Suc)
qed

subsection \<open>The band-pass approximation\<close>

lemma window_bounds_finite:
  "js_le (js_max (Fin 0) x) (js_min (Fin m) y) \<Longrightarrow>
   \<exists>a b. js_max (Fin 0) x = Fin a \<and> js_min (Fin m) y = Fin b"
  by (cases x; cases y) auto

lemma bandpassFilter_loop_step:
  "i < length signal \<Longrightarrow>
   bandpassFilter_loop signal windowSize i filtered =
     (let lo = js_max (Fin 0) (js_sub (js_nat i) windowSize);
          hi = js_min (js_sub (js_nat (length signal)) (Fin 1)) (js_add (js_nat i) windowSize);
          (sum, count) = window_sum_count signal lo hi
      in bandpassFilter_loop signal windowSize (i + 1)
           (filtered @ [js_sub (signal ! i) (js_div sum (js_nat count))]))"
  by (subst bandpassFilter_loop.simps) simp

lemma bandpassFilter_loop_stop:
  "\<not> i < length signal \<Longrightarrow> bandpassFilter_loop signal windowSize i filtered = filtered"
  by (subst bandpassFilter_loop.simps) simp

lemma bandpassFilter_loop_length:
  "length (bandpassFilter_loop signal windowSize i filtered) = length filtered + (length signal - i)"
proof (induction signal windowSize i filtered rule: bandpassFilter_loop.induct)
  case (1 signal windowSize i filtered)
  show ?case
  proof (cases "i < length signal")
    case True
    obtain sum count where sc:
      "window_sum_count signal (js_max (Fin 0) (js_sub (js_nat i) windowSize))
         (js_min (js_sub (js_nat (length signal)) (Fin 1)) (js_add (js_nat i) windowSize)) = (sum, count)"
      by (cases "window_sum_count signal (js_max (Fin 0) (js_sub (js_nat i) windowSize))
         (js_min (js_sub (js_nat (length signal)) (Fin 1)) (js_add (js_nat i) windowSize))") auto
    from "1.IH" [OF True refl refl sc [symmetric] refl] True sc show ?thesis
      by (simp add: bandpassFilter_loop_step)
  next
    case False
    then show ?thesis by (simp add: bandpassFilter_loop_stop)
  qed
qed

lemma bandpassFilter_length:
  "length (bandpassFilter signal lowFreq highFreq sampleRate) = length signal"
  by (simp add: bandpassFilter_def bandpassFilter_loop_length)

lemma bandpassFilter_loop_Fin:
  "bandpassFilter_loop (map Fin xs) (Fin (real w)) i filtered =
     filtered @ map (\<lambda>k. Fin (xs ! k - moving_average xs w k)) [i..<length xs]"
proof (induction "length xs - i" arbitrary: i filtered)
  case 0
  then show ?case by (simp add: bandpassFilter_loop_stop)
next
  case (Suc m)
  then have i: "i < length xs" by simp
  let ?hi = "min (length xs - 1) (i + w)"
  have lo: "js_max (Fin 0) (js_sub (js_nat i) (Fin (real w))) = Fin (real (i - w))"
    by (simp add: js_nat_def max_def of_nat_diff)
  have hi: "js_min (js_sub (js_nat (length (map Fin xs))) (Fin 1)) (js_add (js_nat i) (Fin (real w)))
      = Fin (real ?hi)"
  proof -
    have "real (length xs) - 1 = real (length xs - 1)"
      using i by (simp add: of_nat_diff)
    then show ?thesis
      by (simp add: js_nat_def of_nat_min [symmetric] del: of_nat_min of_nat_diff)
  qed
  have hilt: "?hi < length xs" using i by simp
  have cnt: "real (Suc ?hi - (i - w)) \<noteq> 0"
    using i by simp
  have lohi: "i - w < Suc ?hi"
    using i by simp
  have step: "bandpassFilter_loop (map Fin xs) (Fin (real w)) i filtered =
      bandpassFilter_loop (map Fin xs) (Fin (real w)) (i + 1)
        (filtered @ [Fin (xs ! i - moving_average xs w i)])"
  proof -
    have "i < length (map Fin xs)" using i by simp
    note bandpassFilter_loop_step [OF this, of "Fin (real w)" filtered]
    also have "(let lo = js_max (Fin 0) (js_sub (js_nat i) (Fin (real w)));
          hi = js_min (js_sub (js_nat (length (map Fin xs))) (Fin 1)) (js_add (js_nat i) (Fin (real w)));
          (sum, count) = window_sum_count (map Fin xs) lo hi
      in bandpassFilter_loop (map Fin xs) (Fin (real w)) (i + 1)
           (filtered @ [js_sub (map Fin xs ! i) (js_div sum (js_nat count))]))
      = bandpassFilter_loop (map Fin xs) (Fin (real w)) (i + 1)
        (filtered @ [Fin (xs ! i - moving_average xs w i)])"
      unfolding Let_def lo hi window_sum_count_Fin [OF hilt]
      using i cnt lohi by (simp add: js_nat_def moving_average_def Let_def del: upt_Suc)
    finally show ?thesis .
  qed
  have "length xs - (i + 1) = m" using Suc.hyps(2) by simp
  from Suc.hyps(1) [OF this [symmetric]] step i show ?case
    by (simp add: upt_conv_Cons)
qed

lemma windowSize_Fin:
  assumes "0 < low" "0 \<le> sr"
  shows "js_floor (js_div (Fin sr) (Fin low)) = Fin (real (nat \<lfloor>sr / low\<rfloor>))"
proof -
  have "0 \<le> sr / low" using assms by simp
  then have "0 \<le> \<lfloor>sr / low\<rfloor>" by simp
  then show ?thesis using assms by simp
qed

lemma bandpassFilter_Fin:
  assumes "0 < low" "0 \<le> sr"
  shows "bandpassFilter (map Fin xs) (Fin low) highFreq (Fin sr) = map Fin (detrend xs (nat \<lfloor>sr / low\<rfloor>))"
  unfolding bandpassFilter_def Let_def windowSize_Fin [OF assms]
  by (simp add: bandpassFilter_loop_Fin detrend_def)








lemma map_nth_upt_drop_take:
  "hi \<le> length xs \<Longrightarrow> map (\<lambda>j. xs ! j) [lo..<hi] = drop lo (take hi xs)"
  by (rule nth_equalityI) auto

lemma moving_average_drop_take:
  "xs \<noteq> [] \<Longrightarrow>
   moving_average xs w i =
     sum_list (drop (i - w) (take (Suc (min (length xs - 1) (i + w))) xs))
       / real (Suc (min (length xs - 1) (i + w)) - (i - w))"
  unfolding moving_average_def Let_def
  by (subst map_nth_upt_drop_take; cases xs) simp_all



subsection \<open>The heart rate\<close>

lemma peak_intervals_Fin: "peak_intervals peaks = map Fin (intervals peaks)"
  by (simp add: peak_intervals_def intervals_def js_nat_def)

lemma length_intervals: "length (intervals peaks) = length peaks - 1"
  by (simp add: intervals_def)

lemma intervals_Nil_iff: "intervals peaks = [] \<longleftrightarrow> length peaks < 2"
  by (auto simp: intervals_def)

lemma intervals_pos:
  assumes "sorted_wrt (<) peaks" and "x \<in> set (intervals peaks)"
  shows "1 \<le> x"
proof -
  from assms(2) obtain i where i: "1 \<le> i" "i < length peaks"
    and x: "x = real (peaks ! i) - real (peaks ! (i - 1))"
    by (auto simp: intervals_def)
  have "peaks ! (i - 1) < peaks ! i"
    using assms(1) i by (simp add: sorted_wrt_nth_less)
  then show ?thesis using x by simp
qed

lemma sum_list_ge_length:
  "\<forall>x \<in> set xs. 1 \<le> x \<Longrightarrow> real (length xs) \<le> sum_list xs" for xs :: "real list"
  by (induction xs) auto

lemma mean_intervals_pos:
  assumes "sorted_wrt (<) peaks" and "2 \<le> length peaks"
  shows "0 < mean (intervals peaks)"
proof -
  have ne: "intervals peaks \<noteq> []"
    using assms(2) by (simp add: intervals_Nil_iff)
  have "real (length (intervals peaks)) \<le> sum_list (intervals peaks)"
    using intervals_pos [OF assms(1)] by (intro sum_list_ge_length) blast
  moreover have "0 < real (length (intervals peaks))"
    using ne by simp
  ultimately have "0 < sum_list (intervals peaks)"
    by linarith
  then show ?thesis
    using ne by (simp add: mean_def)
qed

lemma findPeaks_sorted: "sorted_wrt (<) (findPeaks signal)"
  by (simp add: findPeaks_def findPeaks_loop_filter sorted_wrt_filter)










subsection \<open>The estimators on the pulse series\<close>

lemma detrend_whole_window:
  assumes "xs \<noteq> []" and "length xs \<le> w + 1"
  shows "detrend xs w = map (\<lambda>x. x - mean xs) xs"
proof (rule nth_equalityI)
  show "length (detrend xs w) = length (map (\<lambda>x. x - mean xs) xs)"
    by (simp add: detrend_def)
next
  fix i assume "i < length (detrend xs w)"
  then have i: "i < length xs" by (simp add: detrend_def)
  have lo: "i - w = 0" using i assms(2) by simp
  have hi: "min (length xs - 1) (i + w) = length xs - 1" using i assms(2) by simp
  have "Suc (length xs - 1) = length xs"
    using assms(1) by (cases xs) simp_all
  then have "moving_average xs w i = mean xs"
    unfolding moving_average_drop_take [OF assms(1)] lo hi
    by (simp add: mean_def)
  then show "detrend xs w ! i = map (\<lambda>x. x - mean xs) xs ! i"
    using i by (simp add: detrend_def)
qed

lemma findPeaks_Fin:
  "xs \<noteq> [] \<Longrightarrow>
   findPeaks (map Fin xs) =
     filter (\<lambda>k. is_local_max (map Fin xs) k \<and> mean xs + sqrt (variance xs) * (1 / 2) < xs ! k)
       [1..<length xs - 1]"
  by (auto simp: findPeaks_def findPeaks_loop_filter calculateMean_Fin calculateStdDev_Fin
      intro!: filter_cong)

lemma pulse_signal_filtered:
  "bandpassFilter (map Fin pulse_signal) (Fin (7 / 10)) (Fin 4) (Fin 30)
     = map Fin (map (\<lambda>x. x - 3 / 23) pulse_signal)"
proof -
  have "bandpassFilter (map Fin pulse_signal) (Fin (7 / 10)) (Fin 4) (Fin 30)
      = map Fin (detrend pulse_signal (nat \<lfloor>30 / (7 / 10) :: real\<rfloor>))"
    by (rule bandpassFilter_Fin) simp_all
  also have "nat \<lfloor>30 / (7 / 10) :: real\<rfloor> = 42" by simp
  also have "detrend pulse_signal 42 = map (\<lambda>x. x - mean pulse_signal) pulse_signal"
    by (rule detrend_whole_window) (simp_all add: pulse_signal_def)
  also have "mean pulse_signal = 3 / 23"
    by (simp add: pulse_signal_def mean_def)
  finally show ?thesis .
qed

lemma pulse_signal_peaks:
  "findPeaks (bandpassFilter (map Fin pulse_signal) (Fin (7 / 10)) (Fin 4) (Fin 30)) = [1, 11, 21]"
proof -
  let ?fs = "map (\<lambda>x. x - 3 / 23) pulse_signal"
  define T where "T = mean ?fs + sqrt (variance ?fs) * (1 / 2)"
  have m: "mean ?fs = 0"
    by (simp add: pulse_signal_def mean_def)
  have v: "variance ?fs = 60 / 529"
    by (simp add: variance_def m) (simp add: pulse_signal_def mean_def)
  have "sqrt (60 / 529) < 40 / 23"
    by (rule real_less_lsqrt) (simp_all add: power2_eq_square)
  then have hi: "T < 20 / 23"
    by (simp add: T_def m v)
  have "\<not> sqrt (60 / 529) < - (6 / 23 :: real)"
  proof -
    have "(0 :: real) \<le> sqrt (60 / 529)" by simp
    then show ?thesis by linarith
  qed
  then have lo: "\<not> T < - (3 / 23)"
    by (simp add: T_def m v)
  have "findPeaks (map Fin ?fs) =
     filter (\<lambda>k. is_local_max (map Fin ?fs) k \<and> T < ?fs ! k) [1..<length ?fs - 1]"
    unfolding T_def by (rule findPeaks_Fin) (simp add: pulse_signal_def)
  also have "\<dots> = [1, 11, 21]"
    using hi lo by (simp add: pulse_signal_def is_local_max_def upt_rec [of _ "numeral n" for n])
  finally show ?thesis
    by (simp add: pulse_signal_filtered)
qed


subsection \<open>The blood pressure\<close>

lemma js_clamp_Fin:
  assumes "x \<noteq> NaN" and "lo \<le> hi"
  shows "\<exists>c. js_max (Fin lo) (js_min (Fin hi) x) = Fin c \<and> lo \<le> c \<and> c \<le> hi"
  using assms by (cases x) auto

lemma js_mul_Fin_pos_not_NaN: "x \<noteq> NaN \<Longrightarrow> 0 < c \<Longrightarrow> js_mul x (Fin c) \<noteq> NaN"
  by (cases x) auto

lemma js_sub_Fin_not_NaN: "x \<noteq> NaN \<Longrightarrow> js_sub x (Fin c) \<noteq> NaN"
  by (cases x) (auto simp: js_sub_def)

lemma js_sub_Fin_left_not_NaN: "x \<noteq> NaN \<Longrightarrow> js_sub (Fin c) x \<noteq> NaN"
  by (cases x) (auto simp: js_sub_def)

lemma estimateBloodPressure_factors_range:
  assumes "hr \<noteq> NaN" and "rmssd \<noteq> NaN" and "var \<noteq> NaN"
  shows "\<exists>s d :: int.
     estimateBloodPressure_factors hr rmssd (Fin a) var random1 random2
       = \<lparr>systolic = Some (Fin (real_of_int s)), diastolic = Some (Fin (real_of_int d))\<rparr> \<and>
     95 \<le> s \<and> s \<le> 145 \<and> 60 \<le> d \<and> d \<le> 95 \<and> d \<le> s - 25"
proof -
  obtain f1 where f1: "js_max (Fin (- 15)) (js_min (Fin 15) (js_mul (js_sub hr (Fin 70)) (Fin (3 / 10)))) = Fin f1"
    using js_clamp_Fin [of "js_mul (js_sub hr (Fin 70)) (Fin (3 / 10))" "- 15" 15]
      js_mul_Fin_pos_not_NaN [OF js_sub_Fin_not_NaN [OF assms(1), of 70], of "3 / 10"] by auto
  obtain f2 where f2: "js_max (Fin (- 10)) (js_min (Fin 10) (js_mul (js_sub (Fin 30) rmssd) (Fin (2 / 10)))) = Fin f2"
    using js_clamp_Fin [of "js_mul (js_sub (Fin 30) rmssd) (Fin (2 / 10))" "- 10" 10]
      js_mul_Fin_pos_not_NaN [OF js_sub_Fin_left_not_NaN [OF assms(2), of 30], of "2 / 10"] by auto
  obtain f4 where f4: "js_max (Fin (- 5)) (js_min (Fin 5) (js_mul var (Fin 3))) = Fin f4"
    using js_clamp_Fin [of "js_mul var (Fin 3)" "- 5" 5]
      js_mul_Fin_pos_not_NaN [OF assms(3), of 3] by auto
  define s0 :: int where
    "s0 = \<lfloor>120 + f1 + f2 + (a - 5 / 10) * 10 + f4 + (random1 - 5 / 10) * 6 + 1 / 2\<rfloor>"
  define d0 :: int where
    "d0 = \<lfloor>real_of_int s0 * (65 / 100 + (random2 - 5 / 10) * (1 / 10)) + 1 / 2\<rfloor>"
  define s :: int where "s = max 95 (min 145 s0)"
  define d :: int where "d = min (max 60 (min 95 d0)) (s - 25)"
  have "estimateBloodPressure_factors hr rmssd (Fin a) var random1 random2
       = \<lparr>systolic = Some (Fin (real_of_int s)), diastolic = Some (Fin (real_of_int d))\<rparr>"
    unfolding estimateBloodPressure_factors_def Let_def f1 f2 f4
    by (simp add: s_def d_def s0_def d0_def of_int_max of_int_min)
  moreover have "95 \<le> s \<and> s \<le> 145 \<and> 60 \<le> d \<and> d \<le> 95 \<and> d \<le> s - 25"
    by (auto simp: s_def d_def)
  ultimately show ?thesis by blast
qed

lemma foldl_js_max_Fin: "foldl js_max (Fin a) (map Fin ps) = Fin (foldl max a ps)"
  by (induction ps arbitrary: a) simp_all

lemma foldl_js_min_Fin: "foldl js_min (Fin a) (map Fin ps) = Fin (foldl min a ps)"
  by (induction ps arbitrary: a) simp_all

lemma js_max_list_Fin: "ps \<noteq> [] \<Longrightarrow> js_max_list (map Fin ps) = Fin (foldl max (hd ps) (tl ps))"
  by (cases ps) (simp_all add: js_max_list_def foldl_js_max_Fin)

lemma js_min_list_Fin: "ps \<noteq> [] \<Longrightarrow> js_min_list (map Fin ps) = Fin (foldl min (hd ps) (tl ps))"
  by (cases ps) (simp_all add: js_min_list_def foldl_js_min_Fin)

lemma findPeaks_bound: "i \<in> set (findPeaks signal) \<Longrightarrow> i < length signal"
  by (auto simp: findPeaks_def findPeaks_loop_filter)

lemma normalizedAmplitude_Fin:
  assumes "pv \<noteq> []"
  shows "\<exists>a. (if js_gt (js_max_list (map Fin pv)) (js_min_list (map Fin pv))
          then js_div (js_sub (js_div (js_sum (map Fin pv)) (js_nat (length (map Fin pv))))
                              (js_min_list (map Fin pv)))
                      (js_sub (js_max_list (map Fin pv)) (js_min_list (map Fin pv)))
          else Fin (5 / 10)) = Fin a"
proof (cases "js_gt (js_max_list (map Fin pv)) (js_min_list (map Fin pv))")
  case True
  then have "foldl max (hd pv) (tl pv) - foldl min (hd pv) (tl pv) \<noteq> 0"
    using assms by (simp add: js_max_list_Fin js_min_list_Fin)
  then show ?thesis
    using True assms by (simp add: js_max_list_Fin js_min_list_Fin js_nat_def)
next
  case False
  then show ?thesis by (intro exI [of _ "5 / 10"]) simp
qed

lemma js_sum_Fin_comp [simp]: "js_sum (map (Fin \<circ> f) xs) = Fin (sum_list (map f xs))"
  using js_sum_Fin [of "map f xs"] by simp

lemma squaredDiffs_intervals_Fin:
  "map (\<lambda>i. js_pow2 (js_sub (map Fin ivs ! i) (map Fin ivs ! (i - 1)))) [1..<length (map Fin ivs)]
     = map Fin (map (\<lambda>i. (ivs ! i - ivs ! (i - 1)) * (ivs ! i - ivs ! (i - 1))) [1..<length ivs])"
  by auto

lemma rmssd_not_NaN:
  assumes "2 \<le> length ivs"
  shows "js_sqrt (js_div (js_sum (map (\<lambda>i. js_pow2 (js_sub (map Fin ivs ! i) (map Fin ivs ! (i - 1))))
        [1..<length (map Fin ivs)]))
      (js_nat (length (map (\<lambda>i. js_pow2 (js_sub (map Fin ivs ! i) (map Fin ivs ! (i - 1))))
        [1..<length (map Fin ivs)])))) \<noteq> NaN"
proof -
  let ?sq = "map (\<lambda>i. (ivs ! i - ivs ! (i - 1)) * (ivs ! i - ivs ! (i - 1))) [1..<length ivs]"
  have "0 \<le> sum_list ?sq"
    by (rule sum_list_nonneg) auto
  moreover have "0 < real (length ivs) - 1"
    using assms by simp
  ultimately have "0 \<le> sum_list ?sq / (real (length ivs) - 1)"
    by simp
  then have "\<not> sum_list ?sq / (real (length ivs) - 1) < 0"
    by (simp only: not_less)
  then show ?thesis
    unfolding squaredDiffs_intervals_Fin
    using assms by (simp add: js_nat_def)
qed

lemma js_add_not_NaN: "js_add x y \<noteq> NaN \<Longrightarrow> x \<noteq> NaN \<and> y \<noteq> NaN"
  by (cases x; cases y) simp_all

lemma foldl_js_add_NaN: "foldl js_add NaN xs = NaN"
  by (induction xs) simp_all

lemma foldl_js_add_not_NaN:
  "foldl js_add a xs \<noteq> NaN \<Longrightarrow> a \<noteq> NaN \<and> NaN \<notin> set xs"
proof (induction xs arbitrary: a)
  case Nil
  then show ?case by simp
next
  case (Cons x xs)
  then have "js_add a x \<noteq> NaN \<and> NaN \<notin> set xs" by simp
  with js_add_not_NaN [of a x] show ?case by auto
qed

lemma calculateMean_not_NaN: "calculateMean xs \<noteq> NaN \<Longrightarrow> NaN \<notin> set xs"
proof -
  assume "calculateMean xs \<noteq> NaN"
  then have "js_sum xs \<noteq> NaN"
    by (auto simp: calculateMean_def)
  then show ?thesis
    using foldl_js_add_not_NaN [of "Fin 0" xs] by (simp add: js_sum_def)
qed

lemma foldl_js_add_PInf:
  "PInf \<in> set xs \<or> a = PInf \<Longrightarrow> foldl js_add a xs = PInf \<or> foldl js_add a xs = NaN"
proof (induction xs arbitrary: a)
  case Nil
  then show ?case by simp
next
  case (Cons x xs)
  show ?case
  proof (cases "js_add a x = NaN")
    case True
    then show ?thesis by (simp add: foldl_js_add_NaN)
  next
    case False
    have "PInf \<in> set xs \<or> js_add a x = PInf"
      using Cons.prems False by (cases a; cases x) auto
    from Cons.IH [OF this] show ?thesis by simp
  qed
qed

lemma foldl_js_add_NInf:
  "NInf \<in> set xs \<or> a = NInf \<Longrightarrow> foldl js_add a xs = NInf \<or> foldl js_add a xs = NaN"
proof (induction xs arbitrary: a)
  case Nil
  then show ?case by simp
next
  case (Cons x xs)
  show ?case
  proof (cases "js_add a x = NaN")
    case True
    then show ?thesis by (simp add: foldl_js_add_NaN)
  next
    case False
    have "NInf \<in> set xs \<or> js_add a x = NInf"
      using Cons.prems False by (cases a; cases x) auto
    from Cons.IH [OF this] show ?thesis by simp
  qed
qed

lemma calculateMean_PInf:
  assumes "calculateMean xs \<noteq> NaN" and "PInf \<in> set xs"
  shows "calculateMean xs = PInf"
proof -
  have "js_sum xs = PInf \<or> js_sum xs = NaN"
    using assms(2) foldl_js_add_PInf [of xs "Fin 0"] by (simp add: js_sum_def)
  then show ?thesis
    using assms(1) by (auto simp: calculateMean_def js_nat_def)
qed

lemma calculateMean_NInf:
  assumes "calculateMean xs \<noteq> NaN" and "NInf \<in> set xs"
  shows "calculateMean xs = NInf"
proof -
  have "js_sum xs = NInf \<or> js_sum xs = NaN"
    using assms(2) foldl_js_add_NInf [of xs "Fin 0"] by (simp add: js_sum_def)
  then show ?thesis
    using assms(1) by (auto simp: calculateMean_def js_nat_def)
qed

lemma threshold_finite_series:
  assumes "js_add (calculateMean xs) (js_mul (calculateStdDev xs) (Fin c)) \<noteq> NaN"
  shows "\<exists>rs. xs = map Fin rs"
proof -
  from js_add_not_NaN [OF assms] have m: "calculateMean xs \<noteq> NaN"
    and "js_mul (calculateStdDev xs) (Fin c) \<noteq> NaN" by auto
  then have "calculateStdDev xs \<noteq> NaN"
    by auto
  then have "calculateMean (map (\<lambda>x. js_pow2 (js_sub x (calculateMean xs))) xs) \<noteq> NaN"
    by (auto simp: calculateStdDev_def Let_def)
  from calculateMean_not_NaN [OF this]
  have sq: "\<And>x. x \<in> set xs \<Longrightarrow> js_pow2 (js_sub x (calculateMean xs)) \<noteq> NaN"
    by force
  have nan: "NaN \<notin> set xs"
    by (rule calculateMean_not_NaN [OF m])
  have pinf: "PInf \<notin> set xs"
  proof
    assume p: "PInf \<in> set xs"
    from sq [OF p] calculateMean_PInf [OF m p] show False
      by (simp add: js_sub_def)
  qed
  have ninf: "NInf \<notin> set xs"
  proof
    assume p: "NInf \<in> set xs"
    from sq [OF p] calculateMean_NInf [OF m p] show False
      by (simp add: js_sub_def)
  qed
  have "\<forall>x \<in> set xs. \<exists>r. x = Fin r"
  proof
    fix x assume "x \<in> set xs"
    with nan pinf ninf show "\<exists>r. x = Fin r"
      by (cases x) auto
  qed
  then have "xs = map Fin (map (\<lambda>x. case x of Fin r \<Rightarrow> r | _ \<Rightarrow> 0) xs)"
    by (induction xs) auto
  then show ?thesis ..
qed

lemma findPeaks_loop_NaN: "findPeaks_loop signal NaN i peaks = peaks"
  by (simp add: findPeaks_loop_filter js_gt_def)

lemma findPeaks_finite_series:
  assumes "findPeaks signal \<noteq> []"
  shows "\<exists>rs. signal = map Fin rs"
proof (rule threshold_finite_series)
  show "js_add (calculateMean signal) (js_mul (calculateStdDev signal) (Fin (1 / 2))) \<noteq> NaN"
  proof
    assume "js_add (calculateMean signal) (js_mul (calculateStdDev signal) (Fin (1 / 2))) = NaN"
    then have "findPeaks signal = []"
      by (simp add: findPeaks_def findPeaks_loop_NaN)
    with assms show False by simp
  qed
qed

lemma bandpassFilter_loop_NaN:
  "bandpassFilter_loop signal NaN i filtered = filtered @ replicate (length signal - i) NaN"
proof (induction "length signal - i" arbitrary: i filtered)
  case 0
  then show ?case by (simp add: bandpassFilter_loop_stop)
next
  case (Suc n)
  then have i: "i < length signal" by simp
  have sc: "window_sum_count signal (js_max (Fin 0) (js_sub (js_nat i) NaN))
      (js_min (js_sub (js_nat (length signal)) (Fin 1)) (js_add (js_nat i) NaN)) = (Fin 0, 0)"
    by (simp add: window_sum_count_def js_sub_def js_nat_def)
  have nan: "js_sub (signal ! i) (js_div (Fin 0) (js_nat 0)) = NaN"
    by (cases "signal ! i") (simp_all add: js_nat_def js_sub_def)
  have "bandpassFilter_loop signal NaN i filtered =
      bandpassFilter_loop signal NaN (i + 1) (filtered @ [NaN])"
    using i by (simp add: bandpassFilter_loop_step sc nan)
  also have "\<dots> = (filtered @ [NaN]) @ replicate (length signal - (i + 1)) NaN"
    using Suc.hyps(2) by (intro Suc.hyps(1)) simp
  also have "\<dots> = filtered @ replicate (length signal - i) NaN"
    using i by (simp add: replicate_append_same Suc_diff_Suc flip: replicate_Suc)
  finally show ?case .
qed

lemma findPeaks_frameRate_not_NaN:
  assumes "findPeaks (bandpassFilter signal lowFreq highFreq frameRate) \<noteq> []"
  shows "frameRate \<noteq> NaN"
proof
  assume "frameRate = NaN"
  then have f: "bandpassFilter signal lowFreq highFreq frameRate = replicate (length signal) NaN"
    by (simp add: bandpassFilter_def bandpassFilter_loop_NaN)
  from findPeaks_finite_series [OF assms] obtain rs where
    "bandpassFilter signal lowFreq highFreq frameRate = map Fin rs" ..
  with f have "replicate (length signal) NaN = map Fin rs" by simp
  then have "length signal = 0"
    by (cases signal; cases rs) auto
  then have "findPeaks (bandpassFilter signal lowFreq highFreq frameRate) = []"
    by (simp add: findPeaks_short bandpassFilter_length)
  with assms show False by simp
qed

lemma heartRate_not_NaN:
  "frameRate \<noteq> NaN \<Longrightarrow> 0 < m \<Longrightarrow> js_round (js_div (js_mul (Fin 60) frameRate) (Fin m)) \<noteq> NaN"
  by (cases frameRate) auto

text \<open>
  C1. For every series, every frame rate and every pair of values of the two random
  draws: with fewer than three peaks detected in the filtered series,
  \<open>estimateBloodPressure\<close> returns \<open>{systolic: null, diastolic: null}\<close>; with at
  least three, the systolic value is an integer in \<open>[95, 145]\<close>, the diastolic value is
  an integer in \<open>[60, 95]\<close>, and the diastolic value is at most the systolic less \<open>25\<close>.
  (A series in which a peak is detected holds finite numbers only, and the frame rate is
  not \<open>NaN\<close> then.)
\<close>

theorem estimateBloodPressure_range:
  "(length (findPeaks (bandpassFilter signal (Fin (7 / 10)) (Fin 4) frameRate)) < 3 \<longrightarrow>
      estimateBloodPressure frameRate random1 random2 signal
        = \<lparr>systolic = None, diastolic = None\<rparr>) \<and>
   (3 \<le> length (findPeaks (bandpassFilter signal (Fin (7 / 10)) (Fin 4) frameRate)) \<longrightarrow>
      (\<exists>s d :: int.
         estimateBloodPressure frameRate random1 random2 signal
           = \<lparr>systolic = Some (Fin (real_of_int s)), diastolic = Some (Fin (real_of_int d))\<rparr> \<and>
         95 \<le> s \<and> s \<le> 145 \<and> 60 \<le> d \<and> d \<le> 95 \<and> d \<le> s - 25))"
proof (intro conjI impI)
  assume "length (findPeaks (bandpassFilter signal (Fin (7 / 10)) (Fin 4) frameRate)) < 3"
  then show "estimateBloodPressure frameRate random1 random2 signal
        = \<lparr>systolic = None, diastolic = None\<rparr>"
    by (simp add: estimateBloodPressure_def Let_def)
next
  assume three: "3 \<le> length (findPeaks (bandpassFilter signal (Fin (7 / 10)) (Fin 4) frameRate))"
  then have nonempty: "findPeaks (bandpassFilter signal (Fin (7 / 10)) (Fin 4) frameRate) \<noteq> []"
    by auto
  from findPeaks_finite_series [OF nonempty] obtain fs where
    filt: "bandpassFilter signal (Fin (7 / 10)) (Fin 4) frameRate = map Fin fs" ..
  have rate: "frameRate \<noteq> NaN"
    by (rule findPeaks_frameRate_not_NaN [OF nonempty])
  define peaks where "peaks = findPeaks (map Fin fs)"
  have ge: "3 \<le> length peaks"
    using three by (simp add: filt peaks_def)
  define ivs where "ivs = intervals peaks"
  have iv: "peak_intervals peaks = map Fin ivs"
    by (simp add: ivs_def peak_intervals_Fin)
  have iv2: "2 \<le> length ivs"
    using ge by (simp add: ivs_def length_intervals)
  have ivne: "ivs \<noteq> []"
    using ge by (simp add: ivs_def intervals_Nil_iff)
  have m: "0 < mean ivs"
    unfolding ivs_def peaks_def using ge
    by (intro mean_intervals_pos findPeaks_sorted) (simp add: peaks_def)
  have avg: "js_div (js_sum (map Fin ivs)) (js_nat (length (map Fin ivs))) = Fin (mean ivs)"
    using ivne by (simp add: js_nat_def mean_def)
  have hr: "js_round (js_div (js_mul (Fin 60) frameRate) (Fin (mean ivs))) \<noteq> NaN"
    by (rule heartRate_not_NaN [OF rate m])
  have var: "calculateVariance (map Fin ivs) \<noteq> NaN"
    using ivne by (simp add: calculateVariance_Fin)
  define pv where "pv = map (\<lambda>idx. fs ! idx) peaks"
  have pvs: "map (\<lambda>idx. map Fin fs ! idx) peaks = map Fin pv"
    using findPeaks_bound [of _ "map Fin fs"] by (auto simp: pv_def peaks_def)
  have pvne: "pv \<noteq> []"
    using ge by (auto simp: pv_def)
  from normalizedAmplitude_Fin [OF pvne] obtain a where
    na: "(if js_gt (js_max_list (map Fin pv)) (js_min_list (map Fin pv))
          then js_div (js_sub (js_div (js_sum (map Fin pv)) (js_nat (length (map Fin pv))))
                              (js_min_list (map Fin pv)))
                      (js_sub (js_max_list (map Fin pv)) (js_min_list (map Fin pv)))
          else Fin (5 / 10)) = Fin a" ..
  have "estimateBloodPressure frameRate random1 random2 signal
      = estimateBloodPressure_factors
          (js_round (js_div (js_mul (Fin 60) frameRate) (Fin (mean ivs))))
          (js_sqrt (js_div (js_sum (map (\<lambda>i. js_pow2 (js_sub (map Fin ivs ! i) (map Fin ivs ! (i - 1))))
              [1..<length (map Fin ivs)]))
            (js_nat (length (map (\<lambda>i. js_pow2 (js_sub (map Fin ivs ! i) (map Fin ivs ! (i - 1))))
              [1..<length (map Fin ivs)])))))
          (Fin a) (calculateVariance (map Fin ivs)) random1 random2"
    unfolding estimateBloodPressure_def Let_def filt peaks_def [symmetric] iv pvs na avg
    using ge by (simp only: not_less [symmetric] if_False)
  then show "\<exists>s d :: int.
         estimateBloodPressure frameRate random1 random2 signal
           = \<lparr>systolic = Some (Fin (real_of_int s)), diastolic = Some (Fin (real_of_int d))\<rparr> \<and>
         95 \<le> s \<and> s \<le> 145 \<and> 60 \<le> d \<and> d \<le> 95 \<and> d \<le> s - 25"
    using estimateBloodPressure_factors_range [OF hr rmssd_not_NaN [OF iv2] var] by simp
qed

theorem estimateBloodPressure_range_witness:
  "3 \<le> length (findPeaks (bandpassFilter (map Fin pulse_signal) (Fin (7 / 10)) (Fin 4) (Fin 30))) \<and>
   (\<exists>s d :: int.
      estimateBloodPressure (Fin 30) (1 / 2) (1 / 2) (map Fin pulse_signal)
        = \<lparr>systolic = Some (Fin (real_of_int s)), diastolic = Some (Fin (real_of_int d))\<rparr> \<and>
      95 \<le> s \<and> s \<le> 145 \<and> 60 \<le> d \<and> d \<le> 95 \<and> d \<le> s - 25)"
proof -
  have three: "3 \<le> length (findPeaks (bandpassFilter (map Fin pulse_signal) (Fin (7 / 10)) (Fin 4) (Fin 30)))"
    by (simp add: pulse_signal_peaks)
  with estimateBloodPressure_range [where signal = "map Fin pulse_signal" and frameRate = "Fin 30"
      and ?random1.0 = "1 / 2" and ?random2.0 = "1 / 2"]
  show ?thesis
    by blast
qed

subsection \<open>The oxygen saturation\<close>

lemma js_sum_Fin_fun [simp]: "js_sum (map (\<lambda>x. Fin (f x)) xs) = Fin (sum_list (map f xs))"
  using js_sum_Fin [of "map f xs"] by (simp add: comp_def)

lemma js_eq_Fin [simp]: "js_eq (Fin x) (Fin y) = (x = y)"
  by (simp add: js_eq_def)




subsection \<open>Buffers of at most one frame\<close>

lemma findPeaksWithMinDistance_short:
  "length signal < 3 \<Longrightarrow> findPeaksWithMinDistance signal threshold minDistance = []"
  by (simp add: findPeaksWithMinDistance_def findPeaksWithMinDistance_loop_stop)

lemma detectHeartRate_short: "length signal < 3 \<Longrightarrow> detectHeartRate frameRate signal = None"
  by (simp add: detectHeartRate_def Let_def findPeaks_short bandpassFilter_length)

lemma detectRespiratoryRate_short:
  "length signal < 3 \<Longrightarrow> detectRespiratoryRate frameRate signal = Fin 14"
  by (simp add: detectRespiratoryRate_def Let_def findPeaksWithMinDistance_short bandpassFilter_length)

lemma estimateBloodPressure_short:
  "length signal < 3 \<Longrightarrow>
   estimateBloodPressure frameRate random1 random2 signal = \<lparr>systolic = None, diastolic = None\<rparr>"
  by (simp add: estimateBloodPressure_def Let_def findPeaks_short bandpassFilter_length)

lemma calculateMean_single: "calculateMean [x] = x"
  by (cases x) (simp_all add: calculateMean_def js_sum_def js_nat_def)

lemma calculateAC_single: "calculateAC [x] = NaN \<or> calculateAC [x] = Fin 0"
  by (cases x) (simp_all add: calculateAC_def calculateMean_single js_sum_def js_nat_def js_sub_def)

lemma estimateSpO2_empty: "estimateSpO2 [] = Some (Fin 97)"
  by (simp add: estimateSpO2_def calculateAC_def calculateDC_def js_nat_def js_eq_def
      js_sub_def js_ge_def)

lemma js_div_NaN_right [simp]: "js_div x NaN = NaN"
  by (cases x) simp_all

lemma js_div_zero_zero: "\<not> js_eq x (Fin 0) \<Longrightarrow> \<not> js_eq y (Fin 0) \<Longrightarrow>
    js_div (js_div (Fin 0) x) (js_div (Fin 0) y) = NaN"
  by (cases x; cases y) (simp_all add: js_eq_def)

lemma estimateSpO2_single:
  "estimateSpO2 [f] = None \<or> estimateSpO2 [f] = Some (Fin 97)"
proof (cases "js_eq (f_r f) (Fin 0) \<or> js_eq (f_g f) (Fin 0)")
  case True
  then show ?thesis
    by (simp add: estimateSpO2_def Let_def calculateDC_def calculateMean_single)
next
  case False
  have "js_div (js_div (calculateAC [f_r f]) (f_r f)) (js_div (calculateAC [f_g f]) (f_g f)) = NaN"
    using calculateAC_single [of "f_r f"] calculateAC_single [of "f_g f"] False
    by (auto simp: js_div_zero_zero)
  then have "estimateSpO2 [f] = Some (Fin 97)"
    using False
    by (simp add: estimateSpO2_def Let_def calculateDC_def calculateMean_single js_sub_def js_ge_def)
  then show ?thesis ..
qed

lemma js_toFixed1_not_NaN: "x \<noteq> NaN \<Longrightarrow> js_toFixed1 x \<noteq> NaN"
  by (cases x) auto

lemma temperature_of_ratio:
  assumes "ratio \<noteq> NaN"
  shows "\<exists>x. js_max (Fin (355 / 10)) (js_min (Fin (385 / 10))
           (js_toFixed1 (js_add (Fin 36) (js_mul (js_sub ratio (Fin 1)) (Fin 2))))) = Fin x \<and>
         355 / 10 \<le> x \<and> x \<le> 385 / 10"
proof -
  have "js_add (Fin 36) (js_mul (js_sub ratio (Fin 1)) (Fin 2)) \<noteq> NaN"
    using assms by (cases ratio) (auto simp: js_sub_def)
  then have "js_toFixed1 (js_add (Fin 36) (js_mul (js_sub ratio (Fin 1)) (Fin 2))) \<noteq> NaN"
    by (rule js_toFixed1_not_NaN)
  from js_clamp_Fin [OF this, of "355 / 10" "385 / 10"] show ?thesis by simp
qed

lemma estimateTemperature_single:
  assumes "red \<noteq> 0 \<or> green \<noteq> 0"
  shows "\<exists>x. estimateTemperature [sample_frame (t, red, green, blue)] = Fin x \<and>
             355 / 10 \<le> x \<and> x \<le> 385 / 10"
proof -
  have "js_div (Fin red) (Fin green) \<noteq> NaN"
    using assms by auto
  from temperature_of_ratio [OF this] show ?thesis
    by (simp add: estimateTemperature_def sample_frame_def js_nat_def Let_def)
qed

text \<open>
  On every buffer of at most one frame, whatever its values and the frame rate,
  \<open>detectHeartRate\<close> returns \<open>null\<close>, \<open>estimateSpO2\<close> returns \<open>null\<close> or
  \<open>97\<close>, \<open>detectRespiratoryRate\<close> returns \<open>14\<close> and
  \<open>estimateBloodPressure\<close> returns \<open>{systolic: null, diastolic: null}\<close>; and on a
  buffer of one frame of finite values whose red and green values are not both zero,
  \<open>estimateTemperature\<close> returns a value in \<open>[35.5, 38.5]\<close>.
\<close>

lemma short_buffer_estimates:
  "(length frames \<le> 1 \<longrightarrow>
      detectHeartRate frameRate (map f_g frames) = None \<and>
      (estimateSpO2 frames = None \<or> estimateSpO2 frames = Some (Fin 97)) \<and>
      detectRespiratoryRate frameRate (map f_g frames) = Fin 14 \<and>
      estimateBloodPressure frameRate random1 random2 (map f_g frames)
        = \<lparr>systolic = None, diastolic = None\<rparr>) \<and>
   (red \<noteq> 0 \<or> green \<noteq> 0 \<longrightarrow>
      (\<exists>x. estimateTemperature [sample_frame (t, red, green, blue)] = Fin x \<and>
           355 / 10 \<le> x \<and> x \<le> 385 / 10))"
proof (intro conjI impI)
  assume len: "length frames \<le> 1"
  then show "detectHeartRate frameRate (map f_g frames) = None"
    by (simp add: detectHeartRate_short)
  from len show "detectRespiratoryRate frameRate (map f_g frames) = Fin 14"
    by (simp add: detectRespiratoryRate_short)
  from len show "estimateBloodPressure frameRate random1 random2 (map f_g frames)
        = \<lparr>systolic = None, diastolic = None\<rparr>"
    by (simp add: estimateBloodPressure_short)
  from len consider "frames = []" | f where "frames = [f]"
    by (cases frames) auto
  then show "estimateSpO2 frames = None \<or> estimateSpO2 frames = Some (Fin 97)"
    using estimateSpO2_empty estimateSpO2_single by cases auto
next
  assume "red \<noteq> 0 \<or> green \<noteq> 0"
  then show "\<exists>x. estimateTemperature [sample_frame (t, red, green, blue)] = Fin x \<and>
           355 / 10 \<le> x \<and> x \<le> 385 / 10"
    by (rule estimateTemperature_single)
qed

text \<open>
  C7. For every buffer of at most one frame each estimator is to return \<open>null\<close> or its
  documented default, for \<open>estimateTemperature\<close> a temperature clamped to
  \<open>[35.5, 38.5]\<close>. On the empty buffer, and on one frame whose red and green values are
  both zero, \<open>estimateTemperature\<close> divides zero by zero and returns \<open>NaN\<close>, which
  \<open>Math.min\<close> and \<open>Math.max\<close> let through: the result is neither \<open>null\<close> nor a
  number in \<open>[35.5, 38.5]\<close>.
\<close>

theorem estimateTemperature_degenerate:
  "estimateTemperature [] = NaN \<and>
   estimateTemperature [sample_frame (0, 0, 0, 0)] = NaN \<and>
   \<not> (\<exists>x. estimateTemperature [] = Fin x \<and> 355 / 10 \<le> x \<and> x \<le> 385 / 10)"
  by (simp add: estimateTemperature_def sample_frame_def js_nat_def js_sub_def)

subsection \<open>The health score\<close>

lemma heartRate_band_sub_score: "\<exists>v \<in> sub_scores. heartRate_band x = Fin v"
  by (simp add: heartRate_band_def sub_scores_def)

lemma spo2_band_sub_score: "\<exists>v \<in> sub_scores. spo2_band x = Fin v"
  by (simp add: spo2_band_def sub_scores_def)

lemma respiratoryRate_band_sub_score: "\<exists>v \<in> sub_scores. respiratoryRate_band x = Fin v"
  by (simp add: respiratoryRate_band_def sub_scores_def)

lemma temperature_band_sub_score: "\<exists>v \<in> sub_scores. temperature_band x = Fin v"
  by (simp add: temperature_band_def sub_scores_def)

lemma bloodPressure_band_sub_score: "\<exists>v \<in> sub_scores. bloodPressure_band x y = Fin v"
  by (simp add: bloodPressure_band_def sub_scores_def)

lemma scores_upto_append:
  assumes "scores_upto n scores rs" and "v \<in> sub_scores"
  shows "scores_upto (Suc n) (scores @ [Fin v]) (rs @ [v])"
  using assms by (simp add: scores_upto_def)

lemma scores_upto_keep: "scores_upto n scores rs \<Longrightarrow> scores_upto (Suc n) scores rs"
  by (simp add: scores_upto_def)

lemma push_score_upto:
  assumes "scores_upto n scores rs" and "\<And>x. \<exists>v \<in> sub_scores. band x = Fin v"
  shows "\<exists>rs'. scores_upto (Suc n) (push_score scores field band) rs'"
proof (cases "truthy field")
  case True
  then obtain x where x: "field = Some x" "js_truthy x"
    by (auto simp: truthy_def split: option.splits)
  from assms(2) obtain v where "v \<in> sub_scores" "band x = Fin v" by blast
  with scores_upto_append [OF assms(1), of v] x show ?thesis
    by (auto simp: push_score_def)
next
  case False
  then have "push_score scores field band = scores"
    by (auto simp: push_score_def truthy_def split: option.splits)
  with scores_upto_keep [OF assms(1)] show ?thesis by auto
qed

lemma health_scores_upto: "\<exists>rs. scores_upto 5 (health_scores res hist) rs"
proof -
  have s0: "scores_upto 0 [] []"
    by (simp add: scores_upto_def)
  define hr where "hr = with_fallback (heartRate res) (hist_heart_rate hist)"
  define sp where "sp = with_fallback (spo2 res) (hist_spo2 hist)"
  define rr where "rr = with_fallback (respiratoryRate res) (hist_respiratory_rate hist)"
  define temp where "temp = with_fallback (temperature res) (hist_temperature hist)"
  define sys where "sys = with_fallback (systolic (bloodPressure res)) (hist_blood_pressure_systolic hist)"
  define dia where "dia = with_fallback (diastolic (bloodPressure res)) (hist_blood_pressure_diastolic hist)"
  define sc1 where "sc1 = push_score [] hr heartRate_band"
  define sc2 where "sc2 = push_score sc1 sp spo2_band"
  define sc3 where "sc3 = push_score sc2 rr respiratoryRate_band"
  define sc4 where "sc4 = push_score sc3 temp temperature_band"
  define sc5 where "sc5 = push_score2 sc4 sys dia bloodPressure_band"
  have eq: "health_scores res hist = sc5"
    unfolding health_scores_def Let_def sc5_def sc4_def sc3_def sc2_def sc1_def
        hr_def sp_def rr_def temp_def sys_def dia_def ..
  obtain r1 where r1: "scores_upto 1 sc1 r1"
    using push_score_upto [where band = heartRate_band and field = hr, OF s0 heartRate_band_sub_score] by (auto simp: sc1_def)
  obtain r2 where r2: "scores_upto 2 sc2 r2"
    using push_score_upto [where band = spo2_band and field = sp, OF r1 spo2_band_sub_score]
    by (auto simp: sc2_def numeral_2_eq_2)
  obtain r3 where r3: "scores_upto 3 sc3 r3"
    using push_score_upto [where band = respiratoryRate_band and field = rr, OF r2 respiratoryRate_band_sub_score]
    by (auto simp: sc3_def numeral_3_eq_3 numeral_2_eq_2)
  obtain r4 where r4: "scores_upto 4 sc4 r4"
    using push_score_upto [where band = temperature_band and field = temp, OF r3 temperature_band_sub_score]
    by (auto simp: sc4_def eval_nat_numeral)
  have "\<exists>r5. scores_upto (Suc 4) sc5 r5"
  proof (cases "\<exists>s d. sys = Some s \<and> dia = Some d \<and> js_truthy s \<and> js_truthy d")
    case True
    then obtain s d where sd: "sys = Some s" "dia = Some d" "js_truthy s" "js_truthy d"
      by blast
    from bloodPressure_band_sub_score [of s d] obtain v where
      "v \<in> sub_scores" "bloodPressure_band s d = Fin v" by blast
    with scores_upto_append [OF r4, of v] sd show ?thesis
      by (auto simp: sc5_def push_score2_def)
  next
    case False
    then have "sc5 = sc4"
      by (auto simp: sc5_def push_score2_def split: option.splits)
    with scores_upto_keep [OF r4] show ?thesis by auto
  qed
  then show ?thesis
    by (simp add: eq)
qed

lemma sum_list_bounds:
  fixes xs :: "real list"
  assumes "\<forall>x \<in> set xs. lo \<le> x \<and> x \<le> hi"
  shows "lo * real (length xs) \<le> sum_list xs \<and> sum_list xs \<le> hi * real (length xs)"
  using assms by (induction xs) (auto simp: algebra_simps)

lemma mean_bounds:
  fixes xs :: "real list"
  assumes "xs \<noteq> []" and "\<forall>x \<in> set xs. lo \<le> x \<and> x \<le> hi"
  shows "lo \<le> mean xs \<and> mean xs \<le> hi"
proof -
  have n: "0 < real (length xs)" using assms(1) by simp
  from sum_list_bounds [OF assms(2)] n show ?thesis
    by (simp add: mean_def pos_le_divide_eq pos_divide_le_eq)
qed

lemma round_bounds:
  fixes x :: real
  assumes "40 \<le> x" and "x \<le> 100"
  shows "40 \<le> round x \<and> round x \<le> 100"
proof -
  have "(40 :: int) \<le> \<lfloor>x + 1 / 2\<rfloor>"
    using assms(1) by (simp add: le_floor_iff)
  moreover have "\<lfloor>x + 1 / 2\<rfloor> < (101 :: int)"
    using assms(2) by (simp add: floor_less_iff)
  ultimately show ?thesis by (simp add: round_def)
qed

lemma push_score_field:
  "push_score scores (with_fallback live historical) band =
     scores @ field_sub_score band live historical"
  by (auto simp: push_score_def with_fallback_def field_sub_score_def resolved_value_def truthy_def
      js_truthy_def split: option.splits)

lemma push_score2_pressure:
  "push_score2 scores (with_fallback liveSys historicalSys) (with_fallback liveDia historicalDia)
       bloodPressure_band =
     scores @ pressure_sub_score liveSys historicalSys liveDia historicalDia"
  by (auto simp: push_score2_def with_fallback_def pressure_sub_score_def resolved_value_def truthy_def
      js_truthy_def split: option.splits)

lemma health_scores_included: "health_scores res hist = included_sub_scores res hist"
  by (simp add: health_scores_def Let_def included_sub_scores_def push_score_field
      push_score2_pressure)

text \<open>
  C5. \<open>calculateHealthScore\<close> returns \<open>0\<close> when the five vital fields are \<open>null\<close>
  and the historical record is empty, and \<open>100\<close> when the fields are heart rate
  \<open>72\<close>, oxygen saturation \<open>98\<close>, respiratory rate \<open>16\<close>, temperature \<open>36.8\<close> and
  blood pressure \<open>110/75\<close>, whatever the historical record; also \<open>100\<close> when the
  fields are \<open>null\<close> and the historical record holds these values, and \<open>88\<close> when
  the heart rate is \<open>130\<close> and the other fields are ideal. For every reading and
  record, the array the scanner averages is the list of the sub-scores of the included
  fields (a field is scored on its live estimate, or on its historical value when the
  estimate is \<open>null\<close>, and is included when that value is a number other than \<open>0\<close>
  and \<open>NaN\<close>); the list holds at most five numbers, each one of \<open>40\<close>, \<open>50\<close>,
  \<open>60\<close>, \<open>70\<close>, \<open>80\<close>, \<open>85\<close> and \<open>100\<close>; and the result is \<open>0\<close> when the
  list is empty and the rounded mean of the list otherwise: an integer in \<open>[0, 100]\<close>.
\<close>

theorem calculateHealthScore_average:
  "calculateHealthScore no_results no_history = Fin 0 \<and>
   calculateHealthScore ideal_results hist = Fin 100 \<and>
   calculateHealthScore no_results ideal_history = Fin 100 \<and>
   calculateHealthScore (ideal_results\<lparr>heartRate := Some (Fin 130)\<rparr>) hist = Fin 88 \<and>
   health_scores res hist' = included_sub_scores res hist' \<and>
   calculateHealthScore res hist' =
     (if included_sub_scores res hist' = [] then Fin 0
      else js_round (js_div (js_sum (included_sub_scores res hist'))
             (js_nat (length (included_sub_scores res hist'))))) \<and>
   (\<exists>rs. included_sub_scores res hist' = map Fin rs \<and> set rs \<subseteq> sub_scores \<and> length rs \<le> 5 \<and>
      calculateHealthScore res hist' =
        (if rs = [] then Fin 0 else Fin (real_of_int (round (mean rs))))) \<and>
   (\<exists>k :: int. calculateHealthScore res hist' = Fin (real_of_int k) \<and> 0 \<le> k \<and> k \<le> 100)"
proof (intro conjI)
  show "calculateHealthScore no_results no_history = Fin 0"
    by (simp add: calculateHealthScore_def health_scores_def no_results_def no_history_def
        with_fallback_def truthy_def push_score_def push_score2_def)
  show "calculateHealthScore ideal_results hist = Fin 100"
    by (simp add: calculateHealthScore_def health_scores_def ideal_results_def
        with_fallback_def truthy_def push_score_def push_score2_def js_truthy_def heartRate_band_def spo2_band_def
        respiratoryRate_band_def temperature_band_def bloodPressure_band_def js_sum_def js_nat_def)
  show "calculateHealthScore no_results ideal_history = Fin 100"
    by (simp add: calculateHealthScore_def health_scores_def no_results_def ideal_history_def
        with_fallback_def truthy_def push_score_def push_score2_def js_truthy_def heartRate_band_def spo2_band_def
        respiratoryRate_band_def temperature_band_def bloodPressure_band_def js_sum_def js_nat_def)
  show "calculateHealthScore (ideal_results\<lparr>heartRate := Some (Fin 130)\<rparr>) hist = Fin 88"
    by (simp add: calculateHealthScore_def health_scores_def ideal_results_def
        with_fallback_def truthy_def push_score_def push_score2_def js_truthy_def heartRate_band_def spo2_band_def
        respiratoryRate_band_def temperature_band_def bloodPressure_band_def js_sum_def js_nat_def)
  show inc: "health_scores res hist' = included_sub_scores res hist'"
    by (rule health_scores_included)
  show "calculateHealthScore res hist' =
     (if included_sub_scores res hist' = [] then Fin 0
      else js_round (js_div (js_sum (included_sub_scores res hist'))
             (js_nat (length (included_sub_scores res hist')))))"
    by (simp add: calculateHealthScore_def inc Let_def)
  obtain rs where rs: "scores_upto 5 (health_scores res hist') rs"
    using health_scores_upto by blast
  then have hs: "included_sub_scores res hist' = map Fin rs" "set rs \<subseteq> sub_scores" "length rs \<le> 5"
    by (simp_all add: scores_upto_def inc)
  have calc: "calculateHealthScore res hist' =
        (if rs = [] then Fin 0 else Fin (real_of_int (round (mean rs))))"
    by (simp add: calculateHealthScore_def inc hs(1) js_nat_def mean_def round_def)
  from hs calc show "\<exists>rs. included_sub_scores res hist' = map Fin rs \<and> set rs \<subseteq> sub_scores \<and> length rs \<le> 5 \<and>
      calculateHealthScore res hist' =
        (if rs = [] then Fin 0 else Fin (real_of_int (round (mean rs))))"
    by blast
  show "\<exists>k :: int. calculateHealthScore res hist' = Fin (real_of_int k) \<and> 0 \<le> k \<and> k \<le> 100"
  proof (cases "rs = []")
    case True
    then have "calculateHealthScore res hist' = Fin (real_of_int 0)"
      by (simp add: calc)
    then show ?thesis by (intro exI [of _ 0]) simp
  next
    case False
    have "\<forall>x \<in> set rs. 40 \<le> x \<and> x \<le> 100"
      using hs(2) by (auto simp: sub_scores_def)
    from mean_bounds [OF False this] have "40 \<le> round (mean rs) \<and> round (mean rs) \<le> 100"
      by (intro round_bounds) simp_all
    then show ?thesis
      using False by (intro exI [of _ "round (mean rs)"]) (simp add: calc)
  qed
qed

theorem calculateHealthScore_average_witness:
  "calculateHealthScore no_results no_history = Fin 0 \<and>
   calculateHealthScore ideal_results no_history = Fin 100 \<and>
   included_sub_scores (no_results\<lparr>heartRate := Some (Fin 130), spo2 := Some (Fin 0)\<rparr>)
       (no_history\<lparr>hist_spo2 := Some (Fin 98), hist_respiratory_rate := Some (Fin 16)\<rparr>)
     = [Fin 40, Fin 100] \<and>
   calculateHealthScore (no_results\<lparr>heartRate := Some (Fin 130), spo2 := Some (Fin 0)\<rparr>)
       (no_history\<lparr>hist_spo2 := Some (Fin 98), hist_respiratory_rate := Some (Fin 16)\<rparr>)
     = Fin 70"
proof -
  let ?res = "no_results\<lparr>heartRate := Some (Fin 130), spo2 := Some (Fin 0)\<rparr>"
  let ?hist = "no_history\<lparr>hist_spo2 := Some (Fin 98), hist_respiratory_rate := Some (Fin 16)\<rparr>"
  have inc: "included_sub_scores ?res ?hist = [Fin 40, Fin 100]"
    by (simp add: included_sub_scores_def field_sub_score_def pressure_sub_score_def
        resolved_value_def no_results_def no_history_def heartRate_band_def respiratoryRate_band_def)
  from calculateHealthScore_average [of no_history ?res ?hist] inc show ?thesis
    by (simp add: js_sum_def js_nat_def)
qed

lemma with_fallback_zero:
  "with_fallback None (Some (Fin 0)) = None"
  by (simp add: with_fallback_def truthy_def js_truthy_def)

lemma push_score_falsy:
  "with_fallback v h = Some (Fin 0) \<or> (v = None \<and> h = Some (Fin 0)) \<Longrightarrow>
   push_score scores (with_fallback v h) band = scores"
  by (auto simp: push_score_def with_fallback_def truthy_def js_truthy_def split: if_splits)

lemma push_score_missing: "push_score scores (with_fallback None None) band = scores"
  by (simp add: push_score_def with_fallback_def truthy_def)

text \<open>
  C10. A historical value of \<open>0\<close> is not substituted for a \<open>null\<close> estimate, and a
  field whose resolved value is \<open>0\<close> (the estimate is \<open>0\<close>, or it is \<open>null\<close> and the
  historical value is \<open>0\<close>) is left out of the score as if it were missing: the score
  is the one of the reading and the record without that field. Inclusion is decided by
  truthiness, so for the blood pressure a systolic or a diastolic value of \<open>0\<close> counts
  as that value missing.
\<close>

theorem calculateHealthScore_zero_omitted:
  "with_fallback None (Some (Fin 0)) = None \<and>
   (with_fallback (heartRate res) (hist_heart_rate hist) = Some (Fin 0) \<or>
    (heartRate res = None \<and> hist_heart_rate hist = Some (Fin 0)) \<longrightarrow>
      calculateHealthScore res hist =
        calculateHealthScore (res\<lparr>heartRate := None\<rparr>) (hist\<lparr>hist_heart_rate := None\<rparr>)) \<and>
   (with_fallback (spo2 res) (hist_spo2 hist) = Some (Fin 0) \<or>
    (spo2 res = None \<and> hist_spo2 hist = Some (Fin 0)) \<longrightarrow>
      calculateHealthScore res hist =
        calculateHealthScore (res\<lparr>spo2 := None\<rparr>) (hist\<lparr>hist_spo2 := None\<rparr>)) \<and>
   (with_fallback (respiratoryRate res) (hist_respiratory_rate hist) = Some (Fin 0) \<or>
    (respiratoryRate res = None \<and> hist_respiratory_rate hist = Some (Fin 0)) \<longrightarrow>
      calculateHealthScore res hist =
        calculateHealthScore (res\<lparr>respiratoryRate := None\<rparr>) (hist\<lparr>hist_respiratory_rate := None\<rparr>)) \<and>
   (with_fallback (temperature res) (hist_temperature hist) = Some (Fin 0) \<or>
    (temperature res = None \<and> hist_temperature hist = Some (Fin 0)) \<longrightarrow>
      calculateHealthScore res hist =
        calculateHealthScore (res\<lparr>temperature := None\<rparr>) (hist\<lparr>hist_temperature := None\<rparr>)) \<and>
   (with_fallback (systolic (bloodPressure res)) (hist_blood_pressure_systolic hist) = Some (Fin 0) \<or>
    (systolic (bloodPressure res) = None \<and> hist_blood_pressure_systolic hist = Some (Fin 0)) \<longrightarrow>
      calculateHealthScore res hist =
        calculateHealthScore (res\<lparr>bloodPressure := (bloodPressure res)\<lparr>systolic := None\<rparr>\<rparr>)
          (hist\<lparr>hist_blood_pressure_systolic := None\<rparr>)) \<and>
   (with_fallback (diastolic (bloodPressure res)) (hist_blood_pressure_diastolic hist) = Some (Fin 0) \<or>
    (diastolic (bloodPressure res) = None \<and> hist_blood_pressure_diastolic hist = Some (Fin 0)) \<longrightarrow>
      calculateHealthScore res hist =
        calculateHealthScore (res\<lparr>bloodPressure := (bloodPressure res)\<lparr>diastolic := None\<rparr>\<rparr>)
          (hist\<lparr>hist_blood_pressure_diastolic := None\<rparr>))"
proof (intro conjI impI)
  show "with_fallback None (Some (Fin 0)) = None"
    by (rule with_fallback_zero)
next
  assume a: "with_fallback (heartRate res) (hist_heart_rate hist) = Some (Fin 0) \<or>
    (heartRate res = None \<and> hist_heart_rate hist = Some (Fin 0))"
  show "calculateHealthScore res hist =
        calculateHealthScore (res\<lparr>heartRate := None\<rparr>) (hist\<lparr>hist_heart_rate := None\<rparr>)"
    by (simp add: calculateHealthScore_def health_scores_def Let_def push_score_falsy [OF a]
        push_score_missing)
next
  assume a: "with_fallback (spo2 res) (hist_spo2 hist) = Some (Fin 0) \<or>
    (spo2 res = None \<and> hist_spo2 hist = Some (Fin 0))"
  show "calculateHealthScore res hist =
        calculateHealthScore (res\<lparr>spo2 := None\<rparr>) (hist\<lparr>hist_spo2 := None\<rparr>)"
    by (simp add: calculateHealthScore_def health_scores_def Let_def push_score_falsy [OF a]
        push_score_missing)
next
  assume a: "with_fallback (respiratoryRate res) (hist_respiratory_rate hist) = Some (Fin 0) \<or>
    (respiratoryRate res = None \<and> hist_respiratory_rate hist = Some (Fin 0))"
  show "calculateHealthScore res hist =
        calculateHealthScore (res\<lparr>respiratoryRate := None\<rparr>) (hist\<lparr>hist_respiratory_rate := None\<rparr>)"
    by (simp add: calculateHealthScore_def health_scores_def Let_def push_score_falsy [OF a]
        push_score_missing)
next
  assume a: "with_fallback (temperature res) (hist_temperature hist) = Some (Fin 0) \<or>
    (temperature res = None \<and> hist_temperature hist = Some (Fin 0))"
  show "calculateHealthScore res hist =
        calculateHealthScore (res\<lparr>temperature := None\<rparr>) (hist\<lparr>hist_temperature := None\<rparr>)"
    by (simp add: calculateHealthScore_def health_scores_def Let_def push_score_falsy [OF a]
        push_score_missing)
next
  assume a: "with_fallback (systolic (bloodPressure res)) (hist_blood_pressure_systolic hist) = Some (Fin 0) \<or>
    (systolic (bloodPressure res) = None \<and> hist_blood_pressure_systolic hist = Some (Fin 0))"
  have "with_fallback (systolic (bloodPressure res)) (hist_blood_pressure_systolic hist) = Some (Fin 0)
     \<or> with_fallback (systolic (bloodPressure res)) (hist_blood_pressure_systolic hist) = None"
    using a by (auto simp: with_fallback_def truthy_def js_truthy_def)
  then show "calculateHealthScore res hist =
        calculateHealthScore (res\<lparr>bloodPressure := (bloodPressure res)\<lparr>systolic := None\<rparr>\<rparr>)
          (hist\<lparr>hist_blood_pressure_systolic := None\<rparr>)"
    by (auto simp: calculateHealthScore_def health_scores_def Let_def push_score2_def
        js_truthy_def with_fallback_def [of None None] truthy_def split: option.splits)
next
  assume a: "with_fallback (diastolic (bloodPressure res)) (hist_blood_pressure_diastolic hist) = Some (Fin 0) \<or>
    (diastolic (bloodPressure res) = None \<and> hist_blood_pressure_diastolic hist = Some (Fin 0))"
  have "with_fallback (diastolic (bloodPressure res)) (hist_blood_pressure_diastolic hist) = Some (Fin 0)
     \<or> with_fallback (diastolic (bloodPressure res)) (hist_blood_pressure_diastolic hist) = None"
    using a by (auto simp: with_fallback_def truthy_def js_truthy_def)
  then show "calculateHealthScore res hist =
        calculateHealthScore (res\<lparr>bloodPressure := (bloodPressure res)\<lparr>diastolic := None\<rparr>\<rparr>)
          (hist\<lparr>hist_blood_pressure_diastolic := None\<rparr>)"
    by (auto simp: calculateHealthScore_def health_scores_def Let_def push_score2_def
        js_truthy_def with_fallback_def [of None None] truthy_def split: option.splits)
qed

theorem calculateHealthScore_zero_omitted_witness:
  "with_fallback (heartRate (ideal_results\<lparr>heartRate := Some (Fin 0)\<rparr>)) (hist_heart_rate no_history)
     = Some (Fin 0) \<and>
   calculateHealthScore (ideal_results\<lparr>heartRate := Some (Fin 0)\<rparr>) no_history =
     calculateHealthScore (ideal_results\<lparr>heartRate := None\<rparr>) no_history \<and>
   calculateHealthScore (ideal_results\<lparr>heartRate := None\<rparr>) (no_history\<lparr>hist_heart_rate := Some (Fin 0)\<rparr>) =
     calculateHealthScore (ideal_results\<lparr>heartRate := None\<rparr>) no_history"
proof -
  have a: "with_fallback (heartRate (ideal_results\<lparr>heartRate := Some (Fin 0)\<rparr>)) (hist_heart_rate no_history)
     = Some (Fin 0)"
    by (simp add: with_fallback_def)
  have b: "heartRate (ideal_results\<lparr>heartRate := None\<rparr>) = None \<and>
     hist_heart_rate (no_history\<lparr>hist_heart_rate := Some (Fin 0)\<rparr>) = Some (Fin 0)"
    by simp
  have nh: "no_history\<lparr>hist_heart_rate := None\<rparr> = no_history"
    by (simp add: no_history_def)
  from calculateHealthScore_zero_omitted [of "ideal_results\<lparr>heartRate := Some (Fin 0)\<rparr>" no_history] a
  have c: "calculateHealthScore (ideal_results\<lparr>heartRate := Some (Fin 0)\<rparr>) no_history =
     calculateHealthScore (ideal_results\<lparr>heartRate := None\<rparr>) no_history"
    by (simp add: nh)
  from calculateHealthScore_zero_omitted
    [of "ideal_results\<lparr>heartRate := None\<rparr>" "no_history\<lparr>hist_heart_rate := Some (Fin 0)\<rparr>"] b
  have d: "calculateHealthScore (ideal_results\<lparr>heartRate := None\<rparr>) (no_history\<lparr>hist_heart_rate := Some (Fin 0)\<rparr>) =
     calculateHealthScore (ideal_results\<lparr>heartRate := None\<rparr>) no_history"
    by (simp add: nh)
  from a c d show ?thesis by blast
qed

subsection \<open>The respiratory rate\<close>






subsection \<open>The respiratory rate on the series of three breaths\<close>



lemma length_breath_signal [simp]: "length breath_signal = 183"
  by (simp add: breath_signal_def)










lemma length_breath_filtered [simp]: "length breath_filtered = 183"
  by (simp add: breath_filtered_def detrend_def)



















end
